theory Spec2Isabelle
  imports Main "HOL-Library.Word"
begin

unbundle bit_operations_syntax

section \<open>Bytes, addresses and the parts of Go's standard library the program calls\<close>

text \<open>
  The annotation service is written in Go. An address (\<^verbatim>\<open>net.IP\<close>) is a byte slice,
  a string is a sequence of bytes, an \<^verbatim>\<open>error\<close> made by \<^verbatim>\<open>errors.New\<close> is its message.
  Logging (\<^verbatim>\<open>log.Println\<close>) and the metrics counters have no effect on any value
  returned and are left out.
\<close>

type_synonym byte = "8 word"
type_synonym IP = "byte list"
type_synonym IPMask = "byte list"
type_synonym error = string

text \<open>\<^verbatim>\<open>bytes.Compare\<close>: lexicographic comparison of byte slices, -1, 0 or +1.\<close>

fun bytes_Compare :: "byte list \<Rightarrow> byte list \<Rightarrow> int" where
  "bytes_Compare [] [] = 0"
| "bytes_Compare [] (y # ys) = - 1"
| "bytes_Compare (x # xs) [] = 1"
| "bytes_Compare (x # xs) (y # ys) =
     (if x < y then - 1 else if y < x then 1 else bytes_Compare xs ys)"

subsection \<open>Package net: parsing addresses and CIDR literals\<close>

text \<open>
  The functions of this subsection are Go's, not the repository's. They follow package
  \<^verbatim>\<open>net\<close> as it was when the repository was written (\<^verbatim>\<open>dtoi\<close>, \<^verbatim>\<open>xtoi\<close>, \<^verbatim>\<open>parseIPv4\<close>,
  \<^verbatim>\<open>parseIPv6\<close>, \<^verbatim>\<open>ParseIP\<close>, \<^verbatim>\<open>CIDRMask\<close>, \<^verbatim>\<open>IP.Mask\<close>, \<^verbatim>\<open>IP.To4\<close>, \<^verbatim>\<open>ParseCIDR\<close>).
  A parser returns the value read and the rest of the string; \<open>None\<close> is Go's
  \<^verbatim>\<open>ok == false\<close> or \<^verbatim>\<open>nil\<close>. Later Go releases refuse a few more strings (a decimal
  field with a leading zero); what is returned for an accepted string is the same.
\<close>

definition isDigit :: "char \<Rightarrow> bool" where
  "isDigit c = (48 \<le> (of_char c :: nat) \<and> (of_char c :: nat) \<le> 57)"

definition digitVal :: "char \<Rightarrow> nat" where
  "digitVal c = of_char c - 48"

definition big :: nat where
  "big = 0xFFFFFF"

fun dtoi_loop :: "nat \<Rightarrow> string \<Rightarrow> (nat \<times> string) option" where
  "dtoi_loop n [] = Some (n, [])"
| "dtoi_loop n (c # cs) =
     (if isDigit c
      then (if big \<le> n * 10 + digitVal c then None
            else dtoi_loop (n * 10 + digitVal c) cs)
      else Some (n, c # cs))"

definition dtoi :: "string \<Rightarrow> (nat \<times> string) option" where
  "dtoi s = (case s of [] \<Rightarrow> None
             | c # cs \<Rightarrow> if isDigit c then dtoi_loop 0 s else None)"

definition hexVal :: "char \<Rightarrow> nat option" where
  "hexVal c =
     (let k = (of_char c :: nat) in
      if 48 \<le> k \<and> k \<le> 57 then Some (k - 48)
      else if 97 \<le> k \<and> k \<le> 102 then Some (k - 97 + 10)
      else if 65 \<le> k \<and> k \<le> 70 then Some (k - 65 + 10)
      else None)"

fun xtoi_loop :: "nat \<Rightarrow> string \<Rightarrow> (nat \<times> string) option" where
  "xtoi_loop n [] = Some (n, [])"
| "xtoi_loop n (c # cs) =
     (case hexVal c of
        None \<Rightarrow> Some (n, c # cs)
      | Some d \<Rightarrow> if big \<le> n * 16 + d then None else xtoi_loop (n * 16 + d) cs)"

definition xtoi :: "string \<Rightarrow> (nat \<times> string) option" where
  "xtoi s = (case s of [] \<Rightarrow> None
             | c # cs \<Rightarrow> if hexVal c = None then None else xtoi_loop 0 s)"

definition v4InV6Prefix :: "byte list" where
  "v4InV6Prefix = [0, 0, 0, 0, 0, 0, 0, 0, 0, 0, 0xff, 0xff]"

text \<open>\<^verbatim>\<open>net.IPv4(a, b, c, d)\<close>: the 16-byte form of an IPv4 address.\<close>

definition IPv4 :: "byte \<Rightarrow> byte \<Rightarrow> byte \<Rightarrow> byte \<Rightarrow> IP" where
  "IPv4 a b c d = v4InV6Prefix @ [a, b, c, d]"

text \<open>The loop of \<^verbatim>\<open>parseIPv4\<close> over the field numbers 0 to 3.\<close>

fun parseIPv4_loop :: "nat list \<Rightarrow> string \<Rightarrow> byte list \<Rightarrow> (byte list \<times> string) option" where
  "parseIPv4_loop [] s p = Some (p, s)"
| "parseIPv4_loop (i # rest) s p =
     (if s = [] then None
      else if 0 < i \<and> hd s \<noteq> CHR ''.'' then None
      else (case dtoi (if 0 < i then tl s else s) of
              None \<Rightarrow> None
            | Some (n, s') \<Rightarrow>
                if 0xFF < n then None else parseIPv4_loop rest s' (p @ [of_nat n])))"

definition parseIPv4 :: "string \<Rightarrow> IP option" where
  "parseIPv4 s =
     (case parseIPv4_loop [0, 1, 2, 3] s [] of
        None \<Rightarrow> None
      | Some (p, s') \<Rightarrow>
          if s' \<noteq> [] then None else Some (IPv4 (p ! 0) (p ! 1) (p ! 2) (p ! 3)))"

text \<open>
  The main loop of \<^verbatim>\<open>parseIPv6\<close>. Go fills a 16-byte array at index \<open>i\<close>; here \<open>ip\<close> holds
  the \<open>i\<close> bytes written so far, and \<open>ellipsis\<close> is the position of \<^verbatim>\<open>::\<close> if one was
  read (Go's -1 is \<open>None\<close>). The result is the state when the loop is left.
\<close>

function parseIPv6_loop ::
  "nat option \<Rightarrow> byte list \<Rightarrow> string \<Rightarrow> (nat option \<times> byte list \<times> string) option" where
  "parseIPv6_loop ellipsis ip s =
     (if 16 \<le> length ip then Some (ellipsis, ip, s)
      else (case xtoi s of
         None \<Rightarrow> None
       | Some (n, rest) \<Rightarrow>
           if 0xFFFF < n then None
           else if rest \<noteq> [] \<and> hd rest = CHR ''.'' then
             (if ellipsis = None \<and> length ip \<noteq> 12 then None
              else if 16 < length ip + 4 then None
              else (case parseIPv4 s of
                      None \<Rightarrow> None
                    | Some ip4 \<Rightarrow> Some (ellipsis, ip @ drop 12 ip4, [])))
           else if rest = [] then Some (ellipsis, ip @ [of_nat (drop_bit 8 n), of_nat n], [])
           else if hd rest \<noteq> CHR '':'' \<or> length rest = 1 then None
           else if hd (tl rest) = CHR '':'' then
             (if ellipsis \<noteq> None then None
              else if tl (tl rest) = []
              then Some (Some (length ip + 2), ip @ [of_nat (drop_bit 8 n), of_nat n], [])
              else parseIPv6_loop (Some (length ip + 2))
                     (ip @ [of_nat (drop_bit 8 n), of_nat n]) (tl (tl rest)))
           else parseIPv6_loop ellipsis (ip @ [of_nat (drop_bit 8 n), of_nat n]) (tl rest)))"
  by pat_completeness auto
termination
  by (relation "measure (\<lambda>(e, ip, s). 16 - length ip)") auto

declare parseIPv6_loop.simps [simp del]

definition parseIPv6 :: "string \<Rightarrow> IP option" where
  "parseIPv6 s =
     (let lead = (2 \<le> length s \<and> s ! 0 = CHR '':'' \<and> s ! 1 = CHR '':'');
          ellipsis0 = (if lead then Some 0 else None);
          s0 = (if lead then drop 2 s else s)
      in if lead \<and> s0 = [] then Some (replicate 16 0)
         else (case parseIPv6_loop ellipsis0 [] s0 of
            None \<Rightarrow> None
          | Some (ellipsis, ip, rest) \<Rightarrow>
              if rest \<noteq> [] then None
              else if length ip < 16 then
                (case ellipsis of
                   None \<Rightarrow> None
                 | Some e \<Rightarrow> Some (take e ip @ replicate (16 - length ip) 0 @ drop e ip))
              else if ellipsis \<noteq> None then None
              else Some ip))"

text \<open>\<^verbatim>\<open>net.ParseIP\<close>: the first \<^verbatim>\<open>.\<close> or \<^verbatim>\<open>:\<close> of the string chooses the parser.\<close>

definition ParseIP :: "string \<Rightarrow> IP option" where
  "ParseIP s =
     (case List.find (\<lambda>c. c = CHR ''.'' \<or> c = CHR '':'') s of
        None \<Rightarrow> None
      | Some c \<Rightarrow> if c = CHR ''.'' then parseIPv4 s else parseIPv6 s)"

text \<open>\<^verbatim>\<open>net.CIDRMask(ones, 8 * l)\<close>: \<open>l\<close> bytes, the first \<open>ones\<close> bits set.\<close>

fun CIDRMask_bytes :: "nat \<Rightarrow> nat \<Rightarrow> IPMask" where
  "CIDRMask_bytes 0 n = []"
| "CIDRMask_bytes (Suc l) n =
     (if 8 \<le> n then 0xff # CIDRMask_bytes l (n - 8)
      else NOT (drop_bit n 0xff) # CIDRMask_bytes l 0)"

definition CIDRMask :: "nat \<Rightarrow> nat \<Rightarrow> IPMask" where
  "CIDRMask ones bits = CIDRMask_bytes (bits div 8) ones"

text \<open>\<^verbatim>\<open>IP.To4\<close>: the 4-byte form of an IPv4 address, \<open>None\<close> (nil) for any other.\<close>

definition To4 :: "IP \<Rightarrow> IP option" where
  "To4 ip =
     (if length ip = 4 then Some ip
      else if length ip = 16 \<and> take 12 ip = v4InV6Prefix then Some (drop 12 ip)
      else None)"

text \<open>\<^verbatim>\<open>IP.Mask\<close>: the address and-ed with the mask, \<open>None\<close> (nil) when the lengths differ.\<close>

definition IP_Mask :: "IP \<Rightarrow> IPMask \<Rightarrow> IP option" where
  "IP_Mask ip msk =
     (let msk' = (if length msk = 16 \<and> length ip = 4 \<and> take 12 msk = replicate 12 0xff
                   then drop 12 msk else msk);
          ip' = (if length msk' = 4 \<and> length ip = 16 \<and> take 12 ip = v4InV6Prefix
                 then drop 12 ip else ip)
      in if length ip' \<noteq> length msk' then None
         else Some (map (\<lambda>(a, m). a AND m) (zip ip' msk')))"

record IPNet =
  IPNet_IP :: "IP option"
  IPNet_Mask :: IPMask

text \<open>
  \<^verbatim>\<open>net.ParseCIDR\<close>: the address as it is written before the slash (always in 16-byte
  form), and the network: that address and-ed with the mask, and the mask, which has
  4 bytes when the address parsed as dotted IPv4 and 16 bytes otherwise.
\<close>

definition ParseCIDR :: "string \<Rightarrow> (IP \<times> IPNet) option" where
  "ParseCIDR s =
     (if list_all (\<lambda>c. c \<noteq> CHR ''/'') s then None
      else
        let addr = takeWhile (\<lambda>c. c \<noteq> CHR ''/'') s;
            msk = tl (dropWhile (\<lambda>c. c \<noteq> CHR ''/'') s);
            ip4 = parseIPv4 addr;
            iplen = (if ip4 = None then 16 else 4 :: nat);
            ip = (if ip4 = None then parseIPv6 addr else ip4)
        in (case dtoi msk of
              None \<Rightarrow> None
            | Some (n, rest) \<Rightarrow>
                (case ip of
                   None \<Rightarrow> None
                 | Some a \<Rightarrow>
                     if rest \<noteq> [] then None
                     else if 8 * iplen < n then None
                     else Some (a, \<lparr>IPNet_IP = IP_Mask a (CIDRMask n (8 * iplen)),
                                    IPNet_Mask = CIDRMask n (8 * iplen)\<rparr>))))"

section \<open>CIDR range math (parser/geo-g2.go, parser/geo-ip.go)\<close>

text \<open>
  \<^verbatim>\<open>rangeCIDR\<close> copies the parsed address into \<^verbatim>\<open>lowIp\<close> and then ors the complement of
  the mask into \<^verbatim>\<open>ip\<close>, byte by byte. Each step of the loop reads and writes \<^verbatim>\<open>ip[x]\<close>
  only, so the loop is a map over the indices. \<^verbatim>\<open>RangeCIDR\<close> of geo-ip.go has the same
  body.
\<close>

definition orComplement :: "IP \<Rightarrow> IPMask \<Rightarrow> nat \<Rightarrow> byte" where
  "orComplement ip msk x =
     (if length msk = 4
      then (if x < 12 then ip ! x OR 0 else ip ! x OR NOT (msk ! (x - 12)))
      else ip ! x OR NOT (msk ! x))"

definition rangeCIDR :: "string \<Rightarrow> error + (IP \<times> IP)" where
  "rangeCIDR cidr =
     (case ParseCIDR cidr of
        None \<Rightarrow> Inl ''Invalid CIDR IP range''
      | Some (ip, ipnet) \<Rightarrow>
          Inr (ip, map (orComplement ip (IPNet_Mask ipnet)) [0..<length ip]))"

definition RangeCIDR :: "string \<Rightarrow> error + (IP \<times> IP)" where
  "RangeCIDR cidr =
     (case ParseCIDR cidr of
        None \<Rightarrow> Inl ''Invalid CIDR IP range''
      | Some (ip, ipnet) \<Rightarrow>
          Inr (ip, map (orComplement ip (IPNet_Mask ipnet)) [0..<length ip]))"

section \<open>Package strconv\<close>

text \<open>
  \<^verbatim>\<open>strconv.Atoi\<close> and \<^verbatim>\<open>strconv.ParseInt(s, 10, 64)\<close>: an optional sign and decimal
  digits, in the range of a 64-bit integer; \<open>None\<close> is a returned error. On a syntax
  error Go returns the value 0 beside the error, which the callers below rely on.
\<close>

definition digitsVal :: "string \<Rightarrow> nat" where
  "digitsVal ds = foldl (\<lambda>n c. n * 10 + digitVal c) 0 ds"

definition Atoi :: "string \<Rightarrow> int option" where
  "Atoi s =
     (let signed = (case s of [] \<Rightarrow> False | c # cs \<Rightarrow> c = CHR ''+'' \<or> c = CHR ''-'');
          neg = (case s of [] \<Rightarrow> False | c # cs \<Rightarrow> c = CHR ''-'');
          ds = (if signed then tl s else s);
          v = (if neg then - int (digitsVal ds) else int (digitsVal ds))
      in if ds = [] then None
         else if list_all isDigit ds \<and> - (2 ^ 63) \<le> v \<and> v \<le> 2 ^ 63 - 1 then Some v
         else None)"

text \<open>
  \<^verbatim>\<open>strconv.ParseFloat\<close> is not modelled: the functions that call it take it as the
  argument \<open>ParseFloat\<close>, of type \<open>string \<Rightarrow> 'f option\<close> for a type \<open>'f\<close> of floats with a
  zero, \<open>None\<close> being a returned error.
\<close>

section \<open>Package parser: the data model (parser/geo-ip.go)\<close>

record 'f IPNode =
  IPAddressLow :: IP
  IPAddressHigh :: IP
  LocationIndex :: int
  PostalCode :: string
  Latitude :: 'f
  Longitude :: 'f

record LocationNode =
  GeonameID :: int
  ContinentCode :: string
  CountryCode :: string
  CountryName :: string
  MetroCode :: int
  CityName :: string

record 'f GeoDataset =
  IP4Nodes :: "'f IPNode list"
  IP6Nodes :: "'f IPNode list"
  LocationNodes :: "LocationNode list"

definition ipNumColumnsGlite2 :: nat where
  "ipNumColumnsGlite2 = 10"

definition locationNumColumnsGlite2 :: nat where
  "locationNumColumnsGlite2 = 13"

subsection \<open>Helpers of geo-ip.go\<close>

text \<open>A Go function returning \<^verbatim>\<open>(value, error)\<close> returns a pair; \<open>None\<close> is the nil error.\<close>

definition checkColumnLength :: "string list \<Rightarrow> nat \<Rightarrow> error option" where
  "checkColumnLength recd sz =
     (if length recd \<noteq> sz then Some ''Corrupted Data: wrong number of columns''
      else None)"

definition lookupGeoId :: "string \<Rightarrow> (int \<rightharpoonup> int) \<Rightarrow> int \<times> error option" where
  "lookupGeoId gnid idMap =
     (case Atoi gnid of
        None \<Rightarrow> (0, Some ''Corrupted Data: geonameID should be a number'')
      | Some geonameId \<Rightarrow>
          (case idMap geonameId of
             None \<Rightarrow> (0, Some ''Corrupted Data: geonameId not found'')
           | Some loadIndex \<Rightarrow> (loadIndex, None)))"

definition stringToFloat ::
  "(string \<Rightarrow> 'f option) \<Rightarrow> string \<Rightarrow> string \<Rightarrow> ('f::zero) \<times> error option" where
  "stringToFloat ParseFloat str field =
     (case ParseFloat str of
        Some flt \<Rightarrow> (flt, None)
      | None \<Rightarrow>
          if 0 < length str
          then (0, Some (''Corrupted Data: '' @ field @ '' should be an int''))
          else (0, None))"

definition isUpper :: "char \<Rightarrow> bool" where
  "isUpper c = (65 \<le> (of_char c :: nat) \<and> (of_char c :: nat) \<le> 90)"

text \<open>
  \<^verbatim>\<open>checkAllCaps\<close>: the regular expression \<^verbatim>\<open>^[0-9A-Z]*$\<close> matches a string exactly when
  each of its characters is a digit or an upper-case letter.
\<close>

definition checkAllCaps :: "string \<Rightarrow> string \<Rightarrow> string \<times> error option" where
  "checkAllCaps str field =
     (if list_all (\<lambda>c. isDigit c \<or> isUpper c) str then (str, None)
      else ([], Some (''Corrupted Data: '' @ field @ '' should be all caps'')))"

subsection \<open>Helpers called by geo-g2.go that are not among the repository's files\<close>

text \<open>
  Modelled from the spec: \<^verbatim>\<open>checkNumColumns\<close>, called by \<^verbatim>\<open>LoadIPListGLite2\<close>, is missing.
  Section 4.3, step 1: "Validate field count; fail with SchemaError otherwise". It is
  given the message of \<^verbatim>\<open>checkColumnLength\<close>, the function of geo-ip.go with this
  signature.
\<close>

definition checkNumColumns :: "string list \<Rightarrow> nat \<Rightarrow> error option" where
  "checkNumColumns recd sz =
     (if length recd \<noteq> sz then Some ''Corrupted Data: wrong number of columns''
      else None)"

text \<open>
  Modelled from the spec: \<^verbatim>\<open>lessThan\<close> is missing. Section 4.3, step 5 compares
  addresses "strictly greater", section 3 "using unsigned big-endian byte-wise
  comparison".
\<close>

definition lessThan_IP :: "IP \<Rightarrow> IP \<Rightarrow> bool" where
  "lessThan_IP a b = (bytes_Compare a b < 0)"

text \<open>
  The successor and the predecessor of an address read as a big-endian number, on the
  bytes from the last one up; both wrap around.
\<close>

fun incr_bytes :: "byte list \<Rightarrow> byte list" where
  "incr_bytes [] = []"
| "incr_bytes (b # bs) = (if b = 255 then 0 # incr_bytes bs else (b + 1) # bs)"

fun decr_bytes :: "byte list \<Rightarrow> byte list" where
  "decr_bytes [] = []"
| "decr_bytes (b # bs) = (if b = 0 then 255 # decr_bytes bs else (b - 1) # bs)"

text \<open>
  Modelled from the spec: \<^verbatim>\<open>PlusOne\<close> is missing. Section 4.3, step 5: "closed node's
  high + 1". The spec does not say what follows the greatest address; here it is the
  zero address. The result is a new slice.
\<close>

definition PlusOne :: "IP \<Rightarrow> IP" where
  "PlusOne a = rev (incr_bytes (rev a))"

text \<open>
  Modelled from the spec: \<^verbatim>\<open>minusOne\<close> is missing. Section 4.3, step 5: "new node's
  low - 1". The spec does not say what precedes the zero address; here it is the
  greatest address. The result is a new slice.
\<close>

definition minusOne :: "IP \<Rightarrow> IP" where
  "minusOne a = rev (decr_bytes (rev a))"


section \<open>Location table builder (parser/geo-g2.go, LoadLocListGLite2)\<close>

text \<open>
  The CSV reader is outside the model: the input is the sequence of records it yields,
  each a list of fields, the header first. With \<^verbatim>\<open>FieldsPerRecord\<close> set to 13 the reader
  returns an error with every record of another length, which the loop turns into
  "wrong number of columns".

  The loop calls \<^verbatim>\<open>checkCaps\<close>, a name no file of the repository defines. The model takes
  the validator as the argument \<open>checkCaps\<close>: \<open>checkCaps_spec\<close> is the one the spec
  describes, and \<^verbatim>\<open>checkAllCaps\<close> of geo-ip.go, which nothing calls, has the same
  signature.
\<close>

fun LoadLocListGLite2_loop ::
  "(string \<Rightarrow> string \<Rightarrow> string \<times> error option) \<Rightarrow> string list list \<Rightarrow>
   LocationNode list \<Rightarrow> (int \<rightharpoonup> int) \<Rightarrow> error + (LocationNode list \<times> (int \<rightharpoonup> int))" where
  "LoadLocListGLite2_loop checkCaps [] list idMap = Inr (list, idMap)"
| "LoadLocListGLite2_loop checkCaps (recd # rest) list idMap =
     (if length recd \<noteq> locationNumColumnsGlite2
      then Inl ''Corrupted Data: wrong number of columns''
      else if Atoi (recd ! 0) = None \<and> 0 < length (recd ! 0)
      then Inl ''Corrupted Data: GeonameID should be a number''
      else (case checkCaps (recd ! 2) ''Continent code'' of
         (continent, Some err) \<Rightarrow> Inl err
       | (continent, None) \<Rightarrow>
       (case checkCaps (recd ! 4) ''Country code'' of
         (country, Some err) \<Rightarrow> Inl err
       | (country, None) \<Rightarrow>
           if list_all (\<lambda>c. \<not> isDigit c) (recd ! 5)
           then (if Atoi (recd ! 11) = None \<and> 0 < length (recd ! 11)
                 then Inl ''Corrupted Data: metrocode should be a number''
                 else
                   let lNode = \<lparr>GeonameID = (case Atoi (recd ! 0) of None \<Rightarrow> 0 | Some v \<Rightarrow> v),
                                ContinentCode = continent,
                                CountryCode = country,
                                CountryName = recd ! 5,
                                MetroCode = (case Atoi (recd ! 11) of None \<Rightarrow> 0 | Some v \<Rightarrow> v),
                                CityName = recd ! 10\<rparr>
                   in LoadLocListGLite2_loop checkCaps rest (list @ [lNode])
                        (idMap(GeonameID lNode \<mapsto> int (length (list @ [lNode])) - 1)))
           else Inl ''Corrupted Data: country name should be letters'')))"

definition LoadLocListGLite2 ::
  "(string \<Rightarrow> string \<Rightarrow> string \<times> error option) \<Rightarrow> string list list \<Rightarrow>
   error + (LocationNode list \<times> (int \<rightharpoonup> int))" where
  "LoadLocListGLite2 checkCaps records =
     (case records of
        [] \<Rightarrow> Inl ''Empty input data''
      | header # rest \<Rightarrow> LoadLocListGLite2_loop checkCaps rest [] Map.empty)"

section \<open>Range index builder (parser/geo-g2.go, LoadIPListGLite2)\<close>

text \<open>
  Lines 162 to 192: one record becomes \<^verbatim>\<open>newNode\<close>. Every field of \<^verbatim>\<open>newNode\<close> is assigned
  anew for each record, so the two assignments that end the loop body (lines 229 and
  230) reach nothing: they are overwritten before \<^verbatim>\<open>newNode\<close> is read again, and the
  value after the last record is dropped.
\<close>

definition readBlock ::
  "(string \<Rightarrow> 'f option) \<Rightarrow> string list \<Rightarrow> (int \<rightharpoonup> int) \<Rightarrow> error + ('f::zero) IPNode" where
  "readBlock ParseFloat recd idMap =
     (case checkNumColumns recd ipNumColumnsGlite2 of
        Some err \<Rightarrow> Inl err
      | None \<Rightarrow>
     (case rangeCIDR (recd ! 0) of
        Inl err \<Rightarrow> Inl err
      | Inr (lowIp, highIp) \<Rightarrow>
     (case lookupGeoId (recd ! 1) idMap of
        (index, err) \<Rightarrow>
          let index' =
                (if err = None then index
                 else (case lookupGeoId (recd ! 2) idMap of
                         (backupIndex, None) \<Rightarrow> backupIndex
                       | (backupIndex, Some err') \<Rightarrow> index))
          in (case stringToFloat ParseFloat (recd ! 7) ''Latitude'' of
                (lat, Some err) \<Rightarrow> Inl err
              | (lat, None) \<Rightarrow>
             (case stringToFloat ParseFloat (recd ! 8) ''Longitude'' of
                (lon, Some err) \<Rightarrow> Inl err
              | (lon, None) \<Rightarrow>
                  Inr \<lparr>IPAddressLow = lowIp, IPAddressHigh = highIp,
                       LocationIndex = index', PostalCode = recd ! 6,
                       Latitude = lat, Longitude = lon\<rparr>)))))"

text \<open>
  Lines 198 to 218, the loop that closes nested blocks. The stack is the Go slice: its
  top is its last element. \<^verbatim>\<open>peek\<close> is a copy of the stack's element, so the stack keeps
  the node as it was pushed.
\<close>

function closeNested ::
  "'f IPNode \<Rightarrow> 'f IPNode list \<Rightarrow> 'f IPNode list \<Rightarrow> 'f IPNode list \<times> 'f IPNode list" where
  "closeNested newNode stack list =
     (if 0 < length stack then
        (if length (butlast stack) = 0 then (butlast stack, list)
         else if lessThan_IP (IPAddressLow newNode) (IPAddressHigh (last (butlast stack)))
         then (if 0 < length (butlast stack)
               then (butlast stack,
                     list @ [(last (butlast stack))
                               \<lparr>IPAddressLow := PlusOne (IPAddressHigh (last stack)),
                                IPAddressHigh := minusOne (IPAddressLow newNode)\<rparr>])
               else (butlast stack, list))
         else closeNested newNode (butlast stack)
                (list @ [(last (butlast stack))
                           \<lparr>IPAddressLow := PlusOne (IPAddressHigh (last stack))\<rparr>]))
      else (stack, list))"
  by pat_completeness auto
termination
  by (relation "measure (\<lambda>(n, stack, list). length stack)") auto

declare closeNested.simps [simp del]

text \<open>
  Lines 194 to 228: the new node against the stack, then the push and the append. In the
  nesting branch the last element of the list is updated in place; the stack is not
  empty there, and every push comes with an append, so the list is not empty either.
\<close>

definition addBlock ::
  "'f IPNode \<Rightarrow> 'f IPNode list \<Rightarrow> 'f IPNode list \<Rightarrow> 'f IPNode list \<times> 'f IPNode list" where
  "addBlock newNode stack list =
     (case (if length stack \<noteq> 0
            then (if lessThan_IP (IPAddressHigh (last stack)) (IPAddressLow newNode)
                  then closeNested newNode stack list
                  else (stack,
                        list[length list - 1 :=
                          (list ! (length list - 1))
                            \<lparr>IPAddressHigh := minusOne (IPAddressLow newNode)\<rparr>]))
            else (stack, list)) of
        (stack', list') \<Rightarrow> (stack' @ [newNode], list' @ [newNode]))"

fun LoadIPListGLite2_loop ::
  "(string \<Rightarrow> 'f option) \<Rightarrow> string list list \<Rightarrow> (int \<rightharpoonup> int) \<Rightarrow>
   'f IPNode list \<Rightarrow> 'f IPNode list \<Rightarrow> error + ('f::zero) IPNode list" where
  "LoadIPListGLite2_loop ParseFloat [] idMap stack list = Inr list"
| "LoadIPListGLite2_loop ParseFloat (recd # rest) idMap stack list =
     (case readBlock ParseFloat recd idMap of
        Inl err \<Rightarrow> Inl err
      | Inr newNode \<Rightarrow>
          (case addBlock newNode stack list of
             (stack', list') \<Rightarrow> LoadIPListGLite2_loop ParseFloat rest idMap stack' list'))"

definition LoadIPListGLite2 ::
  "(string \<Rightarrow> 'f option) \<Rightarrow> string list list \<Rightarrow> (int \<rightharpoonup> int) \<Rightarrow>
   error + ('f::zero) IPNode list" where
  "LoadIPListGLite2 ParseFloat records idMap =
     (case records of
        [] \<Rightarrow> Inl ''Empty input data''
      | header # rest \<Rightarrow> LoadIPListGLite2_loop ParseFloat rest idMap [] [])"

section \<open>Range search (package search, SearchList)\<close>

text \<open>
  The loop runs over the indices of the list with the two variables \<^verbatim>\<open>inRange\<close> and
  \<^verbatim>\<open>lastNodeIndex\<close>; the second error message ends with a newline.
\<close>

fun SearchList_loop ::
  "'f IPNode list \<Rightarrow> IP \<Rightarrow> nat list \<Rightarrow> bool \<Rightarrow> nat \<Rightarrow> error + 'f IPNode" where
  "SearchList_loop list userIP [] inRange lastNodeIndex =
     (if inRange then Inr (list ! lastNodeIndex)
      else Inl (''Node not found'' @ [CHR 0x0A]))"
| "SearchList_loop list userIP (i # rest) inRange lastNodeIndex =
     (if 0 \<le> bytes_Compare userIP (IPAddressLow (list ! i)) \<and>
         bytes_Compare userIP (IPAddressHigh (list ! i)) \<le> 0
      then SearchList_loop list userIP rest True i
      else if inRange \<and> bytes_Compare userIP (IPAddressLow (list ! i)) < 0
      then Inr (list ! lastNodeIndex)
      else SearchList_loop list userIP rest inRange lastNodeIndex)"

definition SearchList :: "'f IPNode list \<Rightarrow> string \<Rightarrow> error + 'f IPNode" where
  "SearchList list ipLookUp =
     (case ParseIP ipLookUp of
        None \<Rightarrow> Inl ''Invalid search IP''
      | Some userIP \<Rightarrow> SearchList_loop list userIP [0..<length list] False 0)"

section \<open>Request handling (handler/handler.go)\<close>

text \<open>
  \<^verbatim>\<open>schema.RequestData\<close> and \<^verbatim>\<open>schema.MetaData\<close> belong to another repository; their
  fields are read off the code that builds them. A function that can stop in a run-time
  panic (an index out of range) has an outcome; a nil pointer is \<open>None\<close>.
\<close>

record RequestData =
  IP :: string
  IPFormat :: int
  Timestamp :: int

record 'f GeolocationIP =
  Continent_code :: string
  Country_code :: string
  Country_name :: string
  Postal_code :: string
  Metro_code :: int
  City :: string
  Geo_Latitude :: 'f
  Geo_Longitude :: 'f

record 'f MetaData =
  Geo :: "'f GeolocationIP"

datatype 'a outcome = Returns 'a | Panics

text \<open>
  \<^verbatim>\<open>ValidateAndParse\<close>, of the two URL parameters \<^verbatim>\<open>since_epoch\<close> and \<^verbatim>\<open>ip_addr\<close>: the
  address family of a request is 4 when \<^verbatim>\<open>To4\<close> of the parsed address is not nil, and 6
  otherwise.
\<close>

definition ValidateAndParse :: "string \<Rightarrow> string \<Rightarrow> error + RequestData" where
  "ValidateAndParse since_epoch ip =
     (case Atoi since_epoch of
        None \<Rightarrow> Inl ''Invalid time''
      | Some time_milli \<Rightarrow>
          (case ParseIP ip of
             None \<Rightarrow> Inl ''Invalid IP address''
           | Some newIP \<Rightarrow>
               if To4 newIP \<noteq> None
               then Inr \<lparr>IP = ip, IPFormat = 4, Timestamp = time_milli\<rparr>
               else Inr \<lparr>IP = ip, IPFormat = 6, Timestamp = time_milli\<rparr>))"

definition emptyLocationNode :: LocationNode where
  "emptyLocationNode =
     \<lparr>GeonameID = 0, ContinentCode = [], CountryCode = [], CountryName = [],
      MetroCode = 0, CityName = []\<rparr>"

definition makeMetaData :: "'f IPNode \<Rightarrow> LocationNode \<Rightarrow> 'f MetaData" where
  "makeMetaData ipNode locNode =
     \<lparr>Geo = \<lparr>Continent_code = ContinentCode locNode,
             Country_code = CountryCode locNode,
             Country_name = CountryName locNode,
             Postal_code = PostalCode ipNode,
             Metro_code = MetroCode locNode,
             City = CityName locNode,
             Geo_Latitude = Latitude ipNode,
             Geo_Longitude = Longitude ipNode\<rparr>\<rparr>"

text \<open>
  \<^verbatim>\<open>ConvertIPNodeToMetaData\<close>: the only test before the location table is indexed is
  \<^verbatim>\<open>ipNode.LocationIndex >= 0\<close>; Go panics when the index is not below the length.
\<close>

definition ConvertIPNodeToMetaData ::
  "'f IPNode \<Rightarrow> LocationNode list \<Rightarrow> 'f MetaData outcome" where
  "ConvertIPNodeToMetaData ipNode locationNodes =
     (if 0 \<le> LocationIndex ipNode
      then (if nat (LocationIndex ipNode) < length locationNodes
            then Returns (makeMetaData ipNode (locationNodes ! nat (LocationIndex ipNode)))
            else Panics)
      else Returns (makeMetaData ipNode emptyLocationNode))"

text \<open>
  \<^verbatim>\<open>GetMetadataForSingleIP\<close>: the global \<^verbatim>\<open>CurrentGeoDataset\<close> is the first argument,
  \<open>None\<close> while it is nil. The function runs under the read lock from start to end, so
  one call sees one dataset.
\<close>

definition GetMetadataForSingleIP ::
  "'f GeoDataset option \<Rightarrow> RequestData \<Rightarrow> 'f MetaData option outcome" where
  "GetMetadataForSingleIP CurrentGeoDataset request =
     (case CurrentGeoDataset of
        None \<Rightarrow> Returns None
      | Some dataset \<Rightarrow>
          (case (if IPFormat request = 4 then SearchList (IP4Nodes dataset) (IP request)
                 else if IPFormat request = 6 then SearchList (IP6Nodes dataset) (IP request)
                 else Inl ''Unknown IP Format!'') of
             Inl err \<Rightarrow> Returns None
           | Inr node \<Rightarrow>
               (case ConvertIPNodeToMetaData node (LocationNodes dataset) of
                  Panics \<Rightarrow> Panics
                | Returns m \<Rightarrow> Returns (Some m))))"

section \<open>The invariant of a finished index and the order of the input\<close>

text \<open>
  These predicates are not code of the repository. They state, over the model's types,
  the invariant the spec gives for a finished index (section 3) and the order it assumes
  of the block records (section 4.3), so that the builder's output can be tested
  against them.
\<close>

definition nodeBounds :: "'f IPNode \<Rightarrow> IP \<times> IP \<times> int" where
  "nodeBounds n = (IPAddressLow n, IPAddressHigh n, LocationIndex n)"

definition lowLeHigh :: "'f IPNode \<Rightarrow> bool" where
  "lowLeHigh n = (bytes_Compare (IPAddressLow n) (IPAddressHigh n) \<le> 0)"

definition disjointNodes :: "'f IPNode \<Rightarrow> 'f IPNode \<Rightarrow> bool" where
  "disjointNodes a b =
     (bytes_Compare (IPAddressHigh a) (IPAddressLow b) < 0 \<or>
      bytes_Compare (IPAddressHigh b) (IPAddressLow a) < 0)"

definition ascendingLow :: "'f IPNode \<Rightarrow> 'f IPNode \<Rightarrow> bool" where
  "ascendingLow a b = (bytes_Compare (IPAddressLow a) (IPAddressLow b) < 0)"

text \<open>
  Every node has low \<open>\<le>\<close> high, any two nodes at different positions are disjoint, and
  the list is strictly ascending by low.
\<close>

definition rangeIndexInvariant :: "'f IPNode list \<Rightarrow> bool" where
  "rangeIndexInvariant ns =
     (list_all lowLeHigh ns \<and> sorted_wrt disjointNodes ns \<and> sorted_wrt ascendingLow ns)"

text \<open>
  The order of the input: a block \<open>a\<close> may stand before a block \<open>b\<close> when \<open>a\<close> starts
  lower and \<open>b\<close> lies after \<open>a\<close> or inside it, or when both start at the same address
  and \<open>a\<close> is the wider one (a parent before its child).
\<close>

definition blockBefore :: "IP \<times> IP \<Rightarrow> IP \<times> IP \<Rightarrow> bool" where
  "blockBefore a b =
     (if fst a = fst b then bytes_Compare (snd b) (snd a) < 0
      else bytes_Compare (fst a) (fst b) < 0 \<and>
           (bytes_Compare (snd a) (fst b) < 0 \<or> bytes_Compare (snd b) (snd a) \<le> 0))"

definition cidrRange :: "string \<Rightarrow> (IP \<times> IP) option" where
  "cidrRange c = (case rangeCIDR c of Inl err \<Rightarrow> None | Inr r \<Rightarrow> Some r)"

definition preSorted :: "string list \<Rightarrow> bool" where
  "preSorted cidrs =
     (list_all (\<lambda>c. cidrRange c \<noteq> None) cidrs \<and>
      sorted_wrt blockBefore (map (\<lambda>c. the (cidrRange c)) cidrs))"

section \<open>Properties\<close>

subsection \<open>Evaluating the model on concrete inputs\<close>

lemma CIDRMask_bytes_unfold:
  "0 < l \<Longrightarrow> CIDRMask_bytes l n =
     (if 8 \<le> n then 0xff # CIDRMask_bytes (l - 1) (n - 8)
      else NOT (drop_bit n 0xff) # CIDRMask_bytes (l - 1) 0)"
  by (cases l) simp_all

lemma replicate_unfold: "0 < n \<Longrightarrow> replicate n x = x # replicate (n - 1) x"
  by (cases n) simp_all

lemmas net_eval = ParseIP_def ParseCIDR_def parseIPv4_def parseIPv6_def dtoi_def xtoi_def
  hexVal_def isDigit_def digitVal_def big_def IPv4_def v4InV6Prefix_def CIDRMask_def
  parseIPv6_loop.simps Let_def

lemmas range_eval = rangeCIDR_def orComplement_def upt_rec IP_Mask_def CIDRMask_bytes_unfold
  replicate_unfold

lemma ParseIP_10_1_2_3: "ParseIP ''10.1.2.3'' = Some (IPv4 10 1 2 3)"
  by (simp add: net_eval)

lemma ParseIP_10_1_2: "ParseIP ''10.1.2'' = None"
  by (simp add: net_eval)

lemma ParseIP_zero: "ParseIP ''::'' = Some [0, 0, 0, 0, 0, 0, 0, 0, 0, 0, 0, 0, 0, 0, 0, 0]"
  by (simp add: net_eval range_eval)

lemma ParseCIDR_10_0_0_1_8:
  "ParseCIDR ''10.0.0.1/8'' =
     Some (IPv4 10 0 0 1, \<lparr>IPNet_IP = Some [10, 0, 0, 0], IPNet_Mask = [255, 0, 0, 0]\<rparr>)"
  by (simp add: net_eval range_eval)

lemma rangeCIDR_10_0_0_1_8:
  "rangeCIDR ''10.0.0.1/8'' = Inr (IPv4 10 0 0 1, IPv4 10 255 255 255)"
  by (simp add: net_eval range_eval)

lemma rangeCIDR_10_8:
  "rangeCIDR ''10.0.0.0/8'' = Inr (IPv4 10 0 0 0, IPv4 10 255 255 255)"
  by (simp add: net_eval range_eval)

lemma rangeCIDR_10_0_16:
  "rangeCIDR ''10.0.0.0/16'' = Inr (IPv4 10 0 0 0, IPv4 10 0 255 255)"
  by (simp add: net_eval range_eval)

lemma rangeCIDR_10_1_16:
  "rangeCIDR ''10.1.0.0/16'' = Inr (IPv4 10 1 0 0, IPv4 10 1 255 255)"
  by (simp add: net_eval range_eval)

lemma rangeCIDR_10_2_16:
  "rangeCIDR ''10.2.0.0/16'' = Inr (IPv4 10 2 0 0, IPv4 10 2 255 255)"
  by (simp add: net_eval range_eval)

lemma rangeCIDR_10_255_255_255_32:
  "rangeCIDR ''10.255.255.255/32'' = Inr (IPv4 10 255 255 255, IPv4 10 255 255 255)"
  by (simp add: net_eval range_eval)

lemma rangeCIDR_1_0_0_24:
  "rangeCIDR ''1.0.0.0/24'' = Inr (IPv4 1 0 0 0, IPv4 1 0 0 255)"
  by (simp add: net_eval range_eval)

lemma ParseCIDR_zero_80:
  "ParseCIDR ''::/80'' =
     Some ([0, 0, 0, 0, 0, 0, 0, 0, 0, 0, 0, 0, 0, 0, 0, 0],
           \<lparr>IPNet_IP = Some [0, 0, 0, 0, 0, 0, 0, 0, 0, 0, 0, 0, 0, 0, 0, 0],
            IPNet_Mask = [255, 255, 255, 255, 255, 255, 255, 255, 255, 255, 0, 0, 0, 0, 0, 0]\<rparr>)"
  by (simp add: net_eval range_eval)

lemma rangeCIDR_zero_80:
  "rangeCIDR ''::/80'' =
     Inr ([0, 0, 0, 0, 0, 0, 0, 0, 0, 0, 0, 0, 0, 0, 0, 0],
          [0, 0, 0, 0, 0, 0, 0, 0, 0, 0, 255, 255, 255, 255, 255, 255])"
  by (simp add: net_eval range_eval)

lemma ParseCIDR_2001_db8_32:
  "ParseCIDR ''2001:db8::/32'' =
     Some ([0x20, 0x01, 0x0d, 0xb8, 0, 0, 0, 0, 0, 0, 0, 0, 0, 0, 0, 0],
           \<lparr>IPNet_IP = Some [0x20, 0x01, 0x0d, 0xb8, 0, 0, 0, 0, 0, 0, 0, 0, 0, 0, 0, 0],
            IPNet_Mask = [255, 255, 255, 255, 0, 0, 0, 0, 0, 0, 0, 0, 0, 0, 0, 0]\<rparr>)"
  by (simp add: net_eval range_eval)

lemma rangeCIDR_2001_db8_32:
  "rangeCIDR ''2001:db8::/32'' =
     Inr ([0x20, 0x01, 0x0d, 0xb8, 0, 0, 0, 0, 0, 0, 0, 0, 0, 0, 0, 0],
          [0x20, 0x01, 0x0d, 0xb8, 255, 255, 255, 255, 255, 255, 255, 255, 255, 255, 255, 255])"
  by (simp add: net_eval range_eval)

lemma Atoi_1: "Atoi ''1'' = Some 1"
  by (simp add: Atoi_def digitsVal_def isDigit_def digitVal_def)

lemma Atoi_2: "Atoi ''2'' = Some 2"
  by (simp add: Atoi_def digitsVal_def isDigit_def digitVal_def)

lemma Atoi_17: "Atoi ''17'' = Some 17"
  by (simp add: Atoi_def digitsVal_def isDigit_def digitVal_def)

lemma Atoi_998: "Atoi ''998'' = Some 998"
  by (simp add: Atoi_def digitsVal_def isDigit_def digitVal_def)

lemma Atoi_999: "Atoi ''999'' = Some 999"
  by (simp add: Atoi_def digitsVal_def isDigit_def digitVal_def)

lemma Atoi_empty: "Atoi [] = None"
  by (simp add: Atoi_def)

subsection \<open>The shape of what the parsers return\<close>

lemma bytes_Compare_flip: "bytes_Compare a b = - bytes_Compare b a"
  by (induction a b rule: bytes_Compare.induct) auto

lemma bytes_Compare_pointwise: "list_all2 (\<le>) xs ys \<Longrightarrow> bytes_Compare xs ys \<le> 0"
  by (induction xs ys rule: list_all2_induct) auto

lemma length_CIDRMask_bytes: "length (CIDRMask_bytes l n) = l"
  by (induction l arbitrary: n) auto

lemma parseIPv4_shape:
  "parseIPv4 s = Some ip \<Longrightarrow> length ip = 16 \<and> take 12 ip = v4InV6Prefix"
  by (auto simp: parseIPv4_def IPv4_def v4InV6Prefix_def
      split: option.splits prod.splits if_splits)

text \<open>The loop of \<^verbatim>\<open>parseIPv6\<close> writes two or four bytes at a time and never past 16.\<close>

lemma parseIPv6_loop_length:
  "parseIPv6_loop e ip s = Some (e', ip', s') \<Longrightarrow> even (length ip) \<Longrightarrow> length ip \<le> 16 \<Longrightarrow>
   length ip' \<le> 16"
proof (induction e ip s rule: parseIPv6_loop.induct)
  case (1 ellipsis ip s)
  have ev: "length ip < 16 \<Longrightarrow> length ip + 2 \<le> 16 \<and> even (length ip + 2)"
    using "1.prems"(2) by presburger
  show ?case
  proof (cases "16 \<le> length ip")
    case True
    with "1.prems" show ?thesis by (simp add: parseIPv6_loop.simps)
  next
    case False
    then have lt: "length ip < 16" by simp
    from "1.prems"(1) False obtain n rest where x: "xtoi s = Some (n, rest)"
      by (cases "xtoi s") (auto simp: parseIPv6_loop.simps)
    show ?thesis
      using "1.prems"(1) "1.IH" x False ev[OF lt]
      apply (subst (asm) parseIPv6_loop.simps)
      apply (auto split: if_splits option.splits dest!: parseIPv4_shape)
      done
  qed
qed

lemma parseIPv6_length: "parseIPv6 s = Some ip \<Longrightarrow> length ip = 16"
  by (auto simp: parseIPv6_def Let_def split: if_splits option.splits prod.splits
      dest!: parseIPv6_loop_length)

lemma ParseIP_length: "ParseIP s = Some ip \<Longrightarrow> length ip = 16"
  by (auto simp: ParseIP_def split: option.splits if_splits
      dest: parseIPv4_shape parseIPv6_length)

text \<open>
  \<^verbatim>\<open>ParseCIDR\<close> returns a 16-byte address, with a 4-byte mask and the IPv4 prefix for a
  dotted literal and a 16-byte mask otherwise: every index \<^verbatim>\<open>rangeCIDR\<close> reads is in
  range.
\<close>

lemma ParseCIDR_shape:
  assumes "ParseCIDR s = Some (ip, ipnet)"
  shows "length ip = 16 \<and>
         (length (IPNet_Mask ipnet) = 4 \<and> take 12 ip = v4InV6Prefix \<or>
          length (IPNet_Mask ipnet) = 16)"
  using assms
  by (auto simp: ParseCIDR_def Let_def CIDRMask_def length_CIDRMask_bytes
      split: if_splits option.splits prod.splits
      dest: parseIPv4_shape parseIPv6_length)

subsection \<open>CIDR range math\<close>

lemma RangeCIDR_eq: "RangeCIDR cidr = rangeCIDR cidr"
  by (simp add: RangeCIDR_def rangeCIDR_def)

lemma orComplement_ge: "ip ! x \<le> orComplement ip msk x"
  by (simp add: orComplement_def le_word_or2)

lemma high_ge_low:
  "bytes_Compare ip (map (orComplement ip msk) [0..<length ip]) \<le> 0"
  by (rule bytes_Compare_pointwise) (simp add: list_all2_conv_all_nth orComplement_ge)

lemma high_keeps_prefix:
  assumes "length msk = 4" "12 \<le> length ip"
  shows "take 12 (map (orComplement ip msk) [0..<length ip]) = take 12 ip"
proof (rule nth_equalityI)
  show "length (take 12 (map (orComplement ip msk) [0..<length ip])) = length (take 12 ip)"
    by simp
next
  fix i
  assume "i < length (take 12 (map (orComplement ip msk) [0..<length ip]))"
  then have i: "i < 12" "i < length ip" using assms(2) by simp_all
  then have "take 12 (map (orComplement ip msk) [0..<length ip]) ! i = orComplement ip msk i"
    by simp
  also have "\<dots> = ip ! i" using i(1) assms(1) by (simp add: orComplement_def)
  finally show "take 12 (map (orComplement ip msk) [0..<length ip]) ! i = take 12 ip ! i"
    using i by simp
qed

lemma high_keeps_nonzero:
  assumes "x < length ip" "ip ! x \<noteq> 0"
  shows "map (orComplement ip msk) [0..<length ip] ! x \<noteq> 0"
  using assms by (auto simp: orComplement_def or_eq_0_iff)

lemma To4_None_if_nonzero:
  assumes "length ip = 16" "x < 10" "ip ! x \<noteq> 0"
  shows "To4 ip = None"
proof -
  have "take 12 ip \<noteq> v4InV6Prefix"
  proof
    assume "take 12 ip = v4InV6Prefix"
    then have "take 12 ip ! x = v4InV6Prefix ! x" by simp
    moreover have "v4InV6Prefix ! x = 0"
      using assms(2) unfolding v4InV6Prefix_def
      by (cases x rule: nat.exhaust) (auto simp: nth_Cons')
    ultimately show False using assms by simp
  qed
  with assms(1) show ?thesis by (simp add: To4_def)
qed

lemma rangeCIDR_low_le_high:
  "rangeCIDR cidr = Inr (low, high) \<Longrightarrow> bytes_Compare low high \<le> 0"
  by (auto simp: rangeCIDR_def high_ge_low split: option.splits)

lemma or_not_absorb: "((a :: byte) AND m) OR NOT m = a OR NOT m"
  by (rule bit_eqI) (auto simp: bit_simps)

lemma ParseCIDR_network:
  assumes "ParseCIDR cidr = Some (ip, ipnet)"
  shows "IPNet_IP ipnet = IP_Mask ip (IPNet_Mask ipnet)"
  using assms
  by (auto simp: ParseCIDR_def Let_def split: if_splits option.splits prod.splits)

text \<open>
  What \<^verbatim>\<open>rangeCIDR\<close> returns as high, for every literal it accepts: the network address
  with each host bit set. With the 4-byte mask of a dotted IPv4 literal the mask meets
  the last four bytes and the first twelve are those of the address.
\<close>

lemma rangeCIDR_high_v4:
  assumes p: "ParseCIDR cidr = Some (ip, ipnet)" and m: "length (IPNet_Mask ipnet) = 4"
  shows "\<exists>nw. IPNet_IP ipnet = Some nw \<and> length nw = 4 \<and>
           nw = map (\<lambda>(a, m). a AND m) (zip (drop 12 ip) (IPNet_Mask ipnet)) \<and>
           rangeCIDR cidr =
             Inr (ip, take 12 ip @ map (\<lambda>(a, m). a OR NOT m) (zip nw (IPNet_Mask ipnet)))"
proof -
  let ?msk = "IPNet_Mask ipnet"
  from ParseCIDR_shape[OF p] m have len: "length ip = 16" and pre: "take 12 ip = v4InV6Prefix"
    by auto
  let ?nw = "map (\<lambda>(a, m). a AND m) (zip (drop 12 ip) ?msk)"
  have nw: "IPNet_IP ipnet = Some ?nw"
    using ParseCIDR_network[OF p] m len pre by (simp add: IP_Mask_def)
  have lnw: "length ?nw = 4" using len m by simp
  have "map (orComplement ip ?msk) [0..<length ip] =
        take 12 ip @ map (\<lambda>(a, m). a OR NOT m) (zip ?nw ?msk)"
  proof (rule nth_equalityI)
    show "length (map (orComplement ip ?msk) [0..<length ip]) =
          length (take 12 ip @ map (\<lambda>(a, m). a OR NOT m) (zip ?nw ?msk))"
      using len m by simp
  next
    fix i assume "i < length (map (orComplement ip ?msk) [0..<length ip])"
    then have i: "i < 16" using len by simp
    show "map (orComplement ip ?msk) [0..<length ip] ! i =
          (take 12 ip @ map (\<lambda>(a, m). a OR NOT m) (zip ?nw ?msk)) ! i"
    proof (cases "i < 12")
      case True
      then show ?thesis using len m i by (simp add: nth_append orComplement_def)
    next
      case False
      then have "i - 12 < 4" using i by simp
      then show ?thesis using False len m i
        by (simp add: nth_append orComplement_def or_not_absorb)
    qed
  qed
  with p nw lnw show ?thesis by (simp add: rangeCIDR_def)
qed

lemma rangeCIDR_high_v6:
  assumes p: "ParseCIDR cidr = Some (ip, ipnet)" and m: "length (IPNet_Mask ipnet) = 16"
  shows "\<exists>nw. IPNet_IP ipnet = Some nw \<and> length nw = 16 \<and>
           nw = map (\<lambda>(a, m). a AND m) (zip ip (IPNet_Mask ipnet)) \<and>
           rangeCIDR cidr =
             Inr (ip, map (\<lambda>(a, m). a OR NOT m) (zip nw (IPNet_Mask ipnet)))"
proof -
  let ?msk = "IPNet_Mask ipnet"
  from ParseCIDR_shape[OF p] have len: "length ip = 16" by auto
  let ?nw = "map (\<lambda>(a, m). a AND m) (zip ip ?msk)"
  have nw: "IPNet_IP ipnet = Some ?nw"
    using ParseCIDR_network[OF p] m len by (simp add: IP_Mask_def)
  have lnw: "length ?nw = 16" using len m by simp
  have "map (orComplement ip ?msk) [0..<length ip] =
        map (\<lambda>(a, m). a OR NOT m) (zip ?nw ?msk)"
  proof (rule nth_equalityI)
    show "length (map (orComplement ip ?msk) [0..<length ip]) =
          length (map (\<lambda>(a, m). a OR NOT m) (zip ?nw ?msk))"
      using len m by simp
  next
    fix i assume "i < length (map (orComplement ip ?msk) [0..<length ip])"
    then have i: "i < 16" using len by simp
    then show "map (orComplement ip ?msk) [0..<length ip] ! i =
          map (\<lambda>(a, m). a OR NOT m) (zip ?nw ?msk) ! i"
      using len m by (simp add: orComplement_def or_not_absorb)
  qed
  with p nw lnw show ?thesis by (simp add: rangeCIDR_def)
qed

text \<open>
  Claim C3 (the code differs). \<^verbatim>\<open>rangeCIDR\<close> returns as low the address as it is written
  in the literal, a copy of the first result of \<^verbatim>\<open>ParseCIDR\<close>, not the network address
  (its second result, with the host bits cleared). On \<^verbatim>\<open>10.0.0.1/8\<close> low is 10.0.0.1 and
  the network address is 10.0.0.0; high is 10.255.255.255, with the twelve leading
  bytes as they were.
\<close>

theorem rangeCIDR_low_keeps_host_bits:
  "rangeCIDR ''10.0.0.1/8'' = Inr (IPv4 10 0 0 1, IPv4 10 255 255 255) \<and>
   ParseCIDR ''10.0.0.1/8'' =
     Some (IPv4 10 0 0 1, \<lparr>IPNet_IP = Some [10, 0, 0, 0], IPNet_Mask = [255, 0, 0, 0]\<rparr>) \<and>
   To4 (IPv4 10 0 0 1) = Some [10, 0, 0, 1] \<and>
   To4 (IPv4 10 0 0 1) \<noteq> Some [10, 0, 0, 0]"
  by (simp add: rangeCIDR_10_0_0_1_8 ParseCIDR_10_0_0_1_8 To4_def IPv4_def v4InV6Prefix_def)

text \<open>
  Claim C8 (amended). For every CIDR string that \<^verbatim>\<open>rangeCIDR\<close> accepts: low \<open>\<le>\<close> high under
  \<^verbatim>\<open>bytes.Compare\<close>; low and high have the 16 bytes of the parsed address; low has
  the family of the parsed address; high has the family of the parsed address when
  the literal is dotted IPv4 (a 4-byte mask: both are IPv4, \<^verbatim>\<open>To4\<close> is not nil) and when
  the parsed address is not IPv4 and one of its first ten bytes is not zero (both are
  IPv6). The family of an address is what the handler takes it to be: IPv4 when \<^verbatim>\<open>To4\<close>
  is not nil.
\<close>

theorem rangeCIDR_ordered_same_width:
  assumes "rangeCIDR cidr = Inr (low, high)"
  shows "bytes_Compare low high \<le> 0 \<and> length low = 16 \<and> length high = 16 \<and>
         (\<exists>ip ipnet. ParseCIDR cidr = Some (ip, ipnet) \<and> low = ip \<and>
            (length (IPNet_Mask ipnet) = 4 \<longrightarrow> To4 ip \<noteq> None \<and> To4 high \<noteq> None) \<and>
            (To4 ip = None \<and> (\<exists>x<10. ip ! x \<noteq> 0) \<longrightarrow> To4 high = None))"
proof -
  from assms obtain ip ipnet where p: "ParseCIDR cidr = Some (ip, ipnet)"
    by (cases "ParseCIDR cidr") (auto simp: rangeCIDR_def)
  with assms have low: "low = ip"
    and high: "high = map (orComplement ip (IPNet_Mask ipnet)) [0..<length ip]"
    by (auto simp: rangeCIDR_def)
  from ParseCIDR_shape[OF p] have len: "length ip = 16"
    and fam: "length (IPNet_Mask ipnet) = 4 \<Longrightarrow> take 12 ip = v4InV6Prefix"
    by auto
  have lh: "length high = 16" using high len by simp
  have v4: "To4 ip \<noteq> None \<and> To4 high \<noteq> None" if m: "length (IPNet_Mask ipnet) = 4"
  proof -
    have "take 12 high = take 12 ip"
      unfolding high using m len by (intro high_keeps_prefix) simp_all
    with fam[OF m] len lh show ?thesis by (simp add: To4_def)
  qed
  have v6: "To4 high = None" if "\<exists>x<10. ip ! x \<noteq> 0"
  proof -
    from that obtain x where x: "x < 10" "ip ! x \<noteq> 0" by blast
    then have "high ! x \<noteq> 0"
      unfolding high using len by (intro high_keeps_nonzero) simp_all
    with lh x show ?thesis by (intro To4_None_if_nonzero[of high x]) simp_all
  qed
  show ?thesis
    using p low lh len v4 v6 high_ge_low[of ip "IPNet_Mask ipnet"] high by auto
qed

theorem rangeCIDR_ordered_same_width_witness:
  "rangeCIDR ''10.0.0.0/8'' = Inr (IPv4 10 0 0 0, IPv4 10 255 255 255) \<and>
   bytes_Compare (IPv4 10 0 0 0) (IPv4 10 255 255 255) \<le> 0 \<and>
   length (IPv4 10 0 0 0) = 16 \<and> length (IPv4 10 255 255 255) = 16 \<and>
   To4 (IPv4 10 0 0 0) \<noteq> None \<and> To4 (IPv4 10 255 255 255) \<noteq> None \<and>
   rangeCIDR ''2001:db8::/32'' =
     Inr ([0x20, 0x01, 0x0d, 0xb8, 0, 0, 0, 0, 0, 0, 0, 0, 0, 0, 0, 0],
          [0x20, 0x01, 0x0d, 0xb8, 255, 255, 255, 255, 255, 255, 255, 255, 255, 255, 255, 255]) \<and>
   To4 [0x20, 0x01, 0x0d, 0xb8, 0, 0, 0, 0, 0, 0, 0, 0, 0, 0, 0, 0] = None \<and>
   To4 [0x20, 0x01, 0x0d, 0xb8, 255, 255, 255, 255, 255, 255, 255, 255, 255, 255, 255, 255]
     = None"
proof -
  let ?l6 = "[0x20, 0x01, 0x0d, 0xb8, 0, 0, 0, 0, 0, 0, 0, 0, 0, 0, 0, 0] :: IP"
  have m4: "length (IPNet_Mask \<lparr>IPNet_IP = Some [10, 0, 0, 0], IPNet_Mask = [255, 0, 0, 0]\<rparr>) = 4"
    by simp
  have p4: "ParseCIDR ''10.0.0.0/8'' =
      Some (IPv4 10 0 0 0, \<lparr>IPNet_IP = Some [10, 0, 0, 0], IPNet_Mask = [255, 0, 0, 0]\<rparr>)"
    by (simp add: net_eval range_eval)
  have n6: "To4 ?l6 = None" by (simp add: To4_def v4InV6Prefix_def)
  have x6: "\<exists>x<10. ?l6 ! x \<noteq> 0" by (rule exI[of _ 0]) simp
  from rangeCIDR_ordered_same_width[OF rangeCIDR_10_8] p4 m4
  have a: "bytes_Compare (IPv4 10 0 0 0) (IPv4 10 255 255 255) \<le> 0 \<and>
     length (IPv4 10 0 0 0) = 16 \<and> length (IPv4 10 255 255 255) = 16 \<and>
     To4 (IPv4 10 0 0 0) \<noteq> None \<and> To4 (IPv4 10 255 255 255) \<noteq> None"
    by auto
  from rangeCIDR_ordered_same_width[OF rangeCIDR_2001_db8_32] ParseCIDR_2001_db8_32 n6 x6
  have b: "To4 [0x20, 0x01, 0x0d, 0xb8, 255, 255, 255, 255, 255, 255, 255, 255,
                255, 255, 255, 255] = None"
    by auto
  from a b n6 rangeCIDR_10_8 rangeCIDR_2001_db8_32 show ?thesis by simp
qed

text \<open>
  Claim C8 as stated fails on \<^verbatim>\<open>::/80\<close>: the parsed address \<^verbatim>\<open>::\<close> is IPv6, and high is
  \<^verbatim>\<open>::ffff:255.255.255.255\<close>, the 16-byte form of the IPv4 address 255.255.255.255.
\<close>

theorem rangeCIDR_high_changes_family:
  "rangeCIDR ''::/80'' =
     Inr ([0, 0, 0, 0, 0, 0, 0, 0, 0, 0, 0, 0, 0, 0, 0, 0],
          [0, 0, 0, 0, 0, 0, 0, 0, 0, 0, 255, 255, 255, 255, 255, 255]) \<and>
   ParseIP ''::'' = Some [0, 0, 0, 0, 0, 0, 0, 0, 0, 0, 0, 0, 0, 0, 0, 0] \<and>
   To4 [0, 0, 0, 0, 0, 0, 0, 0, 0, 0, 0, 0, 0, 0, 0, 0] = None \<and>
   To4 [0, 0, 0, 0, 0, 0, 0, 0, 0, 0, 255, 255, 255, 255, 255, 255]
     = Some [255, 255, 255, 255]"
  by (simp add: rangeCIDR_zero_80 ParseIP_zero To4_def v4InV6Prefix_def)

subsection \<open>Location table builder\<close>

lemma checkAllCaps_accepts_iff:
  "(snd (checkAllCaps str field) = None) = list_all (\<lambda>c. isDigit c \<or> isUpper c) str"
  by (simp add: checkAllCaps_def)

lemma checkAllCaps_never_empty_input:
  "snd (checkAllCaps str field) \<noteq> Some ''Empty input data''"
  by (simp add: checkAllCaps_def)

lemma LoadLocListGLite2_loop_never_empty_input:
  assumes "\<And>str field. snd (checkCaps str field) \<noteq> Some ''Empty input data''"
  shows "LoadLocListGLite2_loop checkCaps recs list idMap \<noteq> Inl ''Empty input data''"
proof (induction recs arbitrary: list idMap)
  case Nil
  then show ?case by simp
next
  case (Cons recd rest)
  obtain c1 e1 where c1: "checkCaps (recd ! 2) ''Continent code'' = (c1, e1)" by force
  obtain c2 e2 where c2: "checkCaps (recd ! 4) ''Country code'' = (c2, e2)" by force
  from assms[of "recd ! 2" "''Continent code''"] c1
  have n1: "e1 \<noteq> Some ''Empty input data''" by simp
  from assms[of "recd ! 4" "''Country code''"] c2
  have n2: "e2 \<noteq> Some ''Empty input data''" by simp
  show ?case using Cons.IH n1 n2 c1 c2
    by (cases e1; cases e2) (simp_all add: Let_def)
qed

text \<open>
  Claim C6 (amended). \<^verbatim>\<open>LoadLocListGLite2\<close> fails with "Empty input data" exactly when
  the input has no record at all, not even a header; an input of a header and no data
  record succeeds, with an empty table and an empty id map. This holds for every
  validator \<^verbatim>\<open>checkCaps\<close> whose own error is not that message, \<^verbatim>\<open>checkAllCaps\<close> among them.
\<close>

theorem LoadLocListGLite2_empty_input_iff:
  assumes "\<And>str field. snd (checkCaps str field) \<noteq> Some ''Empty input data''"
  shows "(LoadLocListGLite2 checkCaps records = Inl ''Empty input data'') = (records = []) \<and>
         LoadLocListGLite2 checkCaps [header] = Inr ([], Map.empty)"
  using LoadLocListGLite2_loop_never_empty_input[OF assms]
  by (cases records) (simp_all add: LoadLocListGLite2_def)

theorem LoadLocListGLite2_empty_input_iff_witness:
  "(\<forall>str field. snd (checkAllCaps str field) \<noteq> Some ''Empty input data'') \<and>
   LoadLocListGLite2 checkAllCaps [] = Inl ''Empty input data'' \<and>
   LoadLocListGLite2 checkAllCaps [[''geoname_id'', ''locale_code'', ''continent_code'',
      ''continent_name'', ''country_iso_code'', ''country_name'', ''subdivision_1_iso_code'',
      ''subdivision_1_name'', ''subdivision_2_iso_code'', ''subdivision_2_name'', ''city_name'',
      ''metro_code'', ''time_zone'']] = Inr ([], Map.empty)"
  using LoadLocListGLite2_empty_input_iff[of checkAllCaps "[]" "[''geoname_id'',
      ''locale_code'', ''continent_code'',
      ''continent_name'', ''country_iso_code'', ''country_name'', ''subdivision_1_iso_code'',
      ''subdivision_1_name'', ''subdivision_2_iso_code'', ''subdivision_2_name'', ''city_name'',
      ''metro_code'', ''time_zone'']"] checkAllCaps_never_empty_input
  by simp

text \<open>
  Claim C6 as stated fails on an input of only the header record: the build succeeds.
\<close>

theorem LoadLocListGLite2_header_only_succeeds:
  "LoadLocListGLite2 checkAllCaps [[''geoname_id'', ''locale_code'', ''continent_code'',
      ''continent_name'', ''country_iso_code'', ''country_name'', ''subdivision_1_iso_code'',
      ''subdivision_1_name'', ''subdivision_2_iso_code'', ''subdivision_2_name'', ''city_name'',
      ''metro_code'', ''time_zone'']] = Inr ([], Map.empty) \<and>
   LoadLocListGLite2 checkAllCaps [[''geoname_id'', ''locale_code'', ''continent_code'',
      ''continent_name'', ''country_iso_code'', ''country_name'', ''subdivision_1_iso_code'',
      ''subdivision_1_name'', ''subdivision_2_iso_code'', ''subdivision_2_name'', ''city_name'',
      ''metro_code'', ''time_zone'']] \<noteq> Inl ''Empty input data''"
  by (simp add: LoadLocListGLite2_def)

text \<open>
  Whatever the validator is, a record whose continent code or country code it refuses
  fails the whole build: no row is skipped.
\<close>

lemma LoadLocListGLite2_loop_refused_code:
  assumes "recd \<in> set recs" "length recd = locationNumColumnsGlite2"
    and "\<not> (snd (checkCaps (recd ! 2) ''Continent code'') = None \<and>
             snd (checkCaps (recd ! 4) ''Country code'') = None)"
  shows "\<exists>err. LoadLocListGLite2_loop checkCaps recs list idMap = Inl err"
  using assms(1)
proof (induction recs arbitrary: list idMap)
  case Nil
  then show ?case by simp
next
  case (Cons r rest)
  obtain c1 e1 where c1: "checkCaps (r ! 2) ''Continent code'' = (c1, e1)" by force
  obtain c2 e2 where c2: "checkCaps (r ! 4) ''Country code'' = (c2, e2)" by force
  show ?case
  proof (cases "r = recd")
    case True
    with assms(2,3) c1 c2 show ?thesis
      by (cases e1; cases e2) (auto simp: Let_def)
  next
    case False
    with Cons.prems have "recd \<in> set rest" by simp
    from Cons.IH[OF this] c1 c2 show ?thesis
      by (cases e1; cases e2) (auto simp: Let_def)
  qed
qed

text \<open>
  With \<^verbatim>\<open>checkAllCaps\<close> as the validator: every error of the loop is a "Corrupted Data"
  error, and a record whose continent or country code has a character that is neither
  a digit nor an upper-case letter fails the whole build.
\<close>

lemma LoadLocListGLite2_loop_errors_are_corrupted_data:
  "LoadLocListGLite2_loop checkAllCaps recs list idMap = Inl err \<Longrightarrow>
   \<exists>msg. err = ''Corrupted Data: '' @ msg"
proof (induction recs arbitrary: list idMap)
  case Nil
  then show ?case by simp
next
  case (Cons recd rest)
  then show ?case
    by (auto simp: checkAllCaps_def Let_def split: if_splits)
qed

lemma LoadLocListGLite2_rejects_code:
  assumes "recd \<in> set recs" "length recd = locationNumColumnsGlite2"
    and "\<not> (list_all (\<lambda>c. isDigit c \<or> isUpper c) (recd ! 2) \<and>
             list_all (\<lambda>c. isDigit c \<or> isUpper c) (recd ! 4))"
  shows "\<exists>msg. LoadLocListGLite2 checkAllCaps (header # recs) = Inl (''Corrupted Data: '' @ msg)"
proof -
  from assms(3)
  have "\<not> (snd (checkAllCaps (recd ! 2) ''Continent code'') = None \<and>
           snd (checkAllCaps (recd ! 4) ''Country code'') = None)"
    by (simp add: checkAllCaps_accepts_iff)
  from LoadLocListGLite2_loop_refused_code[OF assms(1,2) this, of "[]" Map.empty]
  obtain err where e: "LoadLocListGLite2_loop checkAllCaps recs [] Map.empty = Inl err"
    by blast
  from LoadLocListGLite2_loop_errors_are_corrupted_data[OF e] e
  show ?thesis by (auto simp: LoadLocListGLite2_def)
qed

lemmas loc_eval = LoadLocListGLite2_def locationNumColumnsGlite2_def checkAllCaps_def
  isDigit_def isUpper_def Atoi_17 Atoi_empty

text \<open>
  \<^verbatim>\<open>checkAllCaps\<close>, the validator of geo-ip.go that no function calls, accepts digits:
  its expression is \<^verbatim>\<open>^[0-9A-Z]*$\<close>, though its log message says "should be all capitals
  and no numbers". Were it the validator of the builder, a continent code \<^verbatim>\<open>E1\<close> would
  pass.
\<close>

lemma checkAllCaps_accepts_digit_in_code:
  "checkAllCaps ''E1'' ''Continent code'' = (''E1'', None) \<and>
   LoadLocListGLite2 checkAllCaps
     [header,
      [''17'', ''en'', ''E1'', ''Europe'', ''SE'', ''Sweden'', [], [], [], [], ''Stockholm'', [],
       ''Europe/Stockholm'']]
     = Inr ([\<lparr>GeonameID = 17, ContinentCode = ''E1'', CountryCode = ''SE'',
              CountryName = ''Sweden'', MetroCode = 0, CityName = ''Stockholm''\<rparr>],
            [17 \<mapsto> 0]) \<and>
   LoadLocListGLite2 checkAllCaps
     [header,
      [''17'', ''en'', ''eu'', ''Europe'', ''SE'', ''Sweden'', [], [], [], [], ''Stockholm'', [],
       ''Europe/Stockholm'']]
     = Inl ''Corrupted Data: Continent code should be all caps''"
  by (simp add: loc_eval)






subsection \<open>Range index builder\<close>

lemma stringToFloat_empty:
  "stringToFloat ParseFloat [] field =
     ((case ParseFloat [] of None \<Rightarrow> 0 | Some flt \<Rightarrow> flt), None)"
  by (simp add: stringToFloat_def split: option.splits)

lemmas block_eval = readBlock_def checkNumColumns_def ipNumColumnsGlite2_def lookupGeoId_def
  Atoi_1 Atoi_2 Atoi_17 Atoi_998 Atoi_999 stringToFloat_empty

lemmas ip_eval = IPv4_def v4InV6Prefix_def lessThan_IP_def minusOne_def PlusOne_def
  addBlock_def closeNested.simps

lemma readBlock_10_8:
  "readBlock ParseFloat [''10.0.0.0/8'', ''1'', ''1'', [], ''0'', ''0'', [], [], [], []]
     [1 \<mapsto> 0, 2 \<mapsto> 1]
   = Inr \<lparr>IPAddressLow = IPv4 10 0 0 0, IPAddressHigh = IPv4 10 255 255 255,
          LocationIndex = 0, PostalCode = [],
          Latitude = (case ParseFloat [] of None \<Rightarrow> 0 | Some flt \<Rightarrow> flt),
          Longitude = (case ParseFloat [] of None \<Rightarrow> 0 | Some flt \<Rightarrow> flt)\<rparr>"
  by (simp add: block_eval rangeCIDR_10_8)

lemma readBlock_10_0_16:
  "readBlock ParseFloat [''10.0.0.0/16'', ''2'', ''2'', [], ''0'', ''0'', [], [], [], []]
     [1 \<mapsto> 0, 2 \<mapsto> 1]
   = Inr \<lparr>IPAddressLow = IPv4 10 0 0 0, IPAddressHigh = IPv4 10 0 255 255,
          LocationIndex = 1, PostalCode = [],
          Latitude = (case ParseFloat [] of None \<Rightarrow> 0 | Some flt \<Rightarrow> flt),
          Longitude = (case ParseFloat [] of None \<Rightarrow> 0 | Some flt \<Rightarrow> flt)\<rparr>"
  by (simp add: block_eval rangeCIDR_10_0_16)

lemma readBlock_10_1_16:
  "readBlock ParseFloat [''10.1.0.0/16'', ''2'', ''2'', [], ''0'', ''0'', [], [], [], []]
     [1 \<mapsto> 0, 2 \<mapsto> 1]
   = Inr \<lparr>IPAddressLow = IPv4 10 1 0 0, IPAddressHigh = IPv4 10 1 255 255,
          LocationIndex = 1, PostalCode = [],
          Latitude = (case ParseFloat [] of None \<Rightarrow> 0 | Some flt \<Rightarrow> flt),
          Longitude = (case ParseFloat [] of None \<Rightarrow> 0 | Some flt \<Rightarrow> flt)\<rparr>"
  by (simp add: block_eval rangeCIDR_10_1_16)

lemma readBlock_10_2_16:
  "readBlock ParseFloat [''10.2.0.0/16'', ''2'', ''2'', [], ''0'', ''0'', [], [], [], []]
     [1 \<mapsto> 0, 2 \<mapsto> 1]
   = Inr \<lparr>IPAddressLow = IPv4 10 2 0 0, IPAddressHigh = IPv4 10 2 255 255,
          LocationIndex = 1, PostalCode = [],
          Latitude = (case ParseFloat [] of None \<Rightarrow> 0 | Some flt \<Rightarrow> flt),
          Longitude = (case ParseFloat [] of None \<Rightarrow> 0 | Some flt \<Rightarrow> flt)\<rparr>"
  by (simp add: block_eval rangeCIDR_10_2_16)

lemma readBlock_10_255_255_255_32:
  "readBlock ParseFloat [''10.255.255.255/32'', ''2'', ''2'', [], ''0'', ''0'', [], [], [], []]
     [1 \<mapsto> 0, 2 \<mapsto> 1]
   = Inr \<lparr>IPAddressLow = IPv4 10 255 255 255, IPAddressHigh = IPv4 10 255 255 255,
          LocationIndex = 1, PostalCode = [],
          Latitude = (case ParseFloat [] of None \<Rightarrow> 0 | Some flt \<Rightarrow> flt),
          Longitude = (case ParseFloat [] of None \<Rightarrow> 0 | Some flt \<Rightarrow> flt)\<rparr>"
  by (simp add: block_eval rangeCIDR_10_255_255_255_32)

lemma readBlock_unknown_geoname:
  "readBlock ParseFloat [''1.0.0.0/24'', ''999'', ''998'', [], ''0'', ''0'', [], [], [], []]
     [17 \<mapsto> 0]
   = Inr \<lparr>IPAddressLow = IPv4 1 0 0 0, IPAddressHigh = IPv4 1 0 0 255,
          LocationIndex = 0, PostalCode = [],
          Latitude = (case ParseFloat [] of None \<Rightarrow> 0 | Some flt \<Rightarrow> flt),
          Longitude = (case ParseFloat [] of None \<Rightarrow> 0 | Some flt \<Rightarrow> flt)\<rparr>"
  by (simp add: block_eval rangeCIDR_1_0_0_24)

text \<open>
  When both the primary and the backup geoname id miss, the node is still built and its
  location index is 0, the value \<^verbatim>\<open>lookupGeoId\<close> returns beside its error.
\<close>

lemma lookupGeoId_miss: "snd (lookupGeoId gnid idMap) \<noteq> None \<Longrightarrow> fst (lookupGeoId gnid idMap) = 0"
  by (auto simp: lookupGeoId_def split: option.splits)

lemma readBlock_lookup_miss:
  assumes "snd (lookupGeoId (recd ! 1) idMap) \<noteq> None"
    and "snd (lookupGeoId (recd ! 2) idMap) \<noteq> None"
    and "readBlock ParseFloat recd idMap = Inr node"
  shows "LocationIndex node = 0"
proof -
  obtain i1 e1 where l1: "lookupGeoId (recd ! 1) idMap = (i1, e1)" by force
  obtain i2 e2 where l2: "lookupGeoId (recd ! 2) idMap = (i2, e2)" by force
  from assms(1) l1 lookupGeoId_miss[of "recd ! 1" idMap] have i1: "i1 = 0" "e1 \<noteq> None"
    by simp_all
  from assms(2) l2 have e2: "e2 \<noteq> None" by simp
  from assms(3) l1 l2 i1 e2 show ?thesis
    by (auto simp: readBlock_def split: option.splits sum.splits prod.splits if_splits)
qed

text \<open>
  Claim C4 (the code differs). A block whose primary and backup geoname ids are both
  missing from the id map is still emitted, but its location index is 0, a valid index
  of the location table, not "none": \<^verbatim>\<open>ConvertIPNodeToMetaData\<close>, which takes only a
  negative index for "no location", reports the first location record for it.
\<close>

theorem LoadIPListGLite2_unknown_geoname_gets_index_0:
  "lookupGeoId ''999'' [17 \<mapsto> 0] = (0, Some ''Corrupted Data: geonameId not found'') \<and>
   lookupGeoId ''998'' [17 \<mapsto> 0] = (0, Some ''Corrupted Data: geonameId not found'') \<and>
   (\<exists>node. LoadIPListGLite2 ParseFloat
        [header, [''1.0.0.0/24'', ''999'', ''998'', [], ''0'', ''0'', [], [], [], []]]
        [17 \<mapsto> 0] = Inr [node] \<and>
      nodeBounds node = (IPv4 1 0 0 0, IPv4 1 0 0 255, 0) \<and>
      (\<exists>m. ConvertIPNodeToMetaData node
             [\<lparr>GeonameID = 17, ContinentCode = ''EU'', CountryCode = ''SE'',
               CountryName = ''Sweden'', MetroCode = 0, CityName = ''Stockholm''\<rparr>]
            = Returns m \<and>
           Country_name (Geo m) = ''Sweden'' \<and> City (Geo m) = ''Stockholm''))"
  by (simp add: LoadIPListGLite2_def readBlock_unknown_geoname addBlock_def nodeBounds_def
      lookupGeoId_def Atoi_998 Atoi_999 ConvertIPNodeToMetaData_def makeMetaData_def)

text \<open>
  Without nesting the builder is right: when each block starts after every block before
  it has ended, the list returned is the list of the blocks as read, and it has the
  invariant of a finished index.
\<close>

lemma bytes_Compare_le_less_trans:
  "bytes_Compare a b \<le> 0 \<Longrightarrow> bytes_Compare b c < 0 \<Longrightarrow> bytes_Compare a c < 0"
proof (induction a b arbitrary: c rule: bytes_Compare.induct)
  case 1
  then show ?case by simp
next
  case (2 y ys)
  then show ?case by (cases c) (auto split: if_splits)
next
  case (3 x xs)
  then show ?case by simp
next
  case (4 x xs y ys)
  then show ?case by (cases c) (auto split: if_splits)
qed

lemma closeNested_single: "closeNested n [p] list = ([], list)"
  by (subst closeNested.simps) simp

lemma addBlock_after:
  assumes "stack = [] \<or> (\<exists>p. stack = [p] \<and> lessThan_IP (IPAddressHigh p) (IPAddressLow n))"
  shows "addBlock n stack list = ([n], list @ [n])"
  using assms by (auto simp: addBlock_def closeNested_single)

lemma LoadIPListGLite2_loop_flat:
  assumes "map (\<lambda>r. readBlock ParseFloat r idMap) recs = map Inr ns"
    and "sorted_wrt (\<lambda>a b. lessThan_IP (IPAddressHigh a) (IPAddressLow b)) ns"
    and "stack = [] \<or>
         (\<exists>p. stack = [p] \<and> (\<forall>n\<in>set ns. lessThan_IP (IPAddressHigh p) (IPAddressLow n)))"
  shows "LoadIPListGLite2_loop ParseFloat recs idMap stack list = Inr (list @ ns)"
  using assms
proof (induction recs arbitrary: ns stack list)
  case Nil
  then show ?case by simp
next
  case (Cons r rest)
  from Cons.prems(1) obtain n ns' where ns: "ns = n # ns'"
    and r: "readBlock ParseFloat r idMap = Inr n"
    and rest: "map (\<lambda>r. readBlock ParseFloat r idMap) rest = map Inr ns'"
    by (cases ns) auto
  from Cons.prems(3) ns
  have "stack = [] \<or> (\<exists>p. stack = [p] \<and> lessThan_IP (IPAddressHigh p) (IPAddressLow n))"
    by auto
  then have a: "addBlock n stack list = ([n], list @ [n])" by (rule addBlock_after)
  from Cons.prems(2) ns
  have s': "sorted_wrt (\<lambda>a b. lessThan_IP (IPAddressHigh a) (IPAddressLow b)) ns'"
    and after: "\<forall>m\<in>set ns'. lessThan_IP (IPAddressHigh n) (IPAddressLow m)"
    by simp_all
  from Cons.IH[OF rest s', of "[n]" "list @ [n]"] after
  have "LoadIPListGLite2_loop ParseFloat rest idMap [n] (list @ [n]) = Inr ((list @ [n]) @ ns')"
    by simp
  with r a ns show ?case by simp
qed

lemma flat_invariant:
  assumes "sorted_wrt (\<lambda>a b. lessThan_IP (IPAddressHigh a) (IPAddressLow b)) ns"
    and "list_all lowLeHigh ns"
  shows "rangeIndexInvariant ns"
proof -
  have d: "sorted_wrt disjointNodes ns"
    using assms(1)
    by (rule sorted_wrt_mono_rel[rotated]) (simp add: disjointNodes_def lessThan_IP_def)
  have "sorted_wrt ascendingLow ns"
    using assms(1)
  proof (rule sorted_wrt_mono_rel[rotated])
    fix a b assume "a \<in> set ns" "b \<in> set ns"
      and "lessThan_IP (IPAddressHigh a) (IPAddressLow b)"
    with assms(2) show "ascendingLow a b"
      by (auto simp: ascendingLow_def lessThan_IP_def lowLeHigh_def list_all_iff
          intro: bytes_Compare_le_less_trans)
  qed
  with d assms(2) show ?thesis by (simp add: rangeIndexInvariant_def)
qed

lemma readBlock_lowLeHigh:
  "readBlock ParseFloat r idMap = Inr n \<Longrightarrow> lowLeHigh n"
  by (auto simp: readBlock_def lowLeHigh_def
      split: option.splits sum.splits prod.splits if_splits
      dest: rangeCIDR_low_le_high)

lemma LoadIPListGLite2_flat_input:
  assumes "map (\<lambda>r. readBlock ParseFloat r idMap) recs = map Inr ns"
    and "sorted_wrt (\<lambda>a b. lessThan_IP (IPAddressHigh a) (IPAddressLow b)) ns"
  shows "LoadIPListGLite2 ParseFloat (header # recs) idMap = Inr ns \<and> rangeIndexInvariant ns"
proof -
  have "lowLeHigh n" if "n \<in> set ns" for n
  proof -
    from that have "Inr n \<in> set (map (\<lambda>r. readBlock ParseFloat r idMap) recs)"
      unfolding assms(1) by simp
    then obtain r where "readBlock ParseFloat r idMap = Inr n" by auto
    then show ?thesis by (rule readBlock_lowLeHigh)
  qed
  then have "list_all lowLeHigh ns" by (simp add: list_all_iff)
  with flat_invariant[OF assms(2)] have "rangeIndexInvariant ns" by simp
  with LoadIPListGLite2_loop_flat[OF assms, of "[]" "[]"] show ?thesis
    by (simp add: LoadIPListGLite2_def)
qed

text \<open>
  Two records give two nodes, whatever they hold: the second record either closes the
  first (the stack empties, nothing is appended) or cuts its high, and is appended.
  Nothing is appended when the input ends.
\<close>

lemma LoadIPListGLite2_two_records_two_nodes:
  assumes "LoadIPListGLite2 ParseFloat [header, r1, r2] idMap = Inr list"
  shows "length list = 2"
proof -
  from assms obtain n1 where n1: "readBlock ParseFloat r1 idMap = Inr n1"
    by (cases "readBlock ParseFloat r1 idMap") (auto simp: LoadIPListGLite2_def)
  from assms n1 obtain n2 where n2: "readBlock ParseFloat r2 idMap = Inr n2"
    by (cases "readBlock ParseFloat r2 idMap") (auto simp: LoadIPListGLite2_def addBlock_def)
  have "closeNested n2 [n1] [n1] = ([], [n1])"
    by (rule closeNested_single)
  with assms n1 n2 show ?thesis
    by (auto simp: LoadIPListGLite2_def addBlock_def split: if_splits)
qed

text \<open>
  Claim C1 (the code differs). For the blocks \<^verbatim>\<open>10.0.0.0/8\<close> with geoname A (index 0) and
  \<^verbatim>\<open>10.1.0.0/16\<close> with geoname B (index 1), \<^verbatim>\<open>LoadIPListGLite2\<close> returns two ranges,
  10.0.0.0 to 10.0.255.255 with A and 10.1.0.0 to 10.1.255.255 with B. The third range
  of the claim, from 10.2.0.0 on with A, is not produced: nothing closes the stack
  when the input ends.
\<close>

theorem LoadIPListGLite2_nested_pair_two_ranges:
  "\<exists>list. LoadIPListGLite2 ParseFloat
      [header,
       [''10.0.0.0/8'', ''1'', ''1'', [], ''0'', ''0'', [], [], [], []],
       [''10.1.0.0/16'', ''2'', ''2'', [], ''0'', ''0'', [], [], [], []]]
      [1 \<mapsto> 0, 2 \<mapsto> 1] = Inr list \<and>
    map nodeBounds list =
      [(IPv4 10 0 0 0, IPv4 10 0 255 255, 0), (IPv4 10 1 0 0, IPv4 10 1 255 255, 1)] \<and>
    length list = 2"
  by (simp add: LoadIPListGLite2_def readBlock_10_8 readBlock_10_1_16 ip_eval nodeBounds_def)

lemmas invariant_eval = rangeIndexInvariant_def lowLeHigh_def ascendingLow_def
  disjointNodes_def nodeBounds_def

lemma preSorted_parent_child:
  "preSorted [''10.0.0.0/8'', ''10.0.0.0/16'']"
  by (simp add: preSorted_def cidrRange_def blockBefore_def rangeCIDR_10_8 rangeCIDR_10_0_16
      IPv4_def v4InV6Prefix_def)

lemma preSorted_parent_children:
  "preSorted [''10.0.0.0/8'', ''10.1.0.0/16'', ''10.2.0.0/16'']"
  by (simp add: preSorted_def cidrRange_def blockBefore_def rangeCIDR_10_8 rangeCIDR_10_1_16
      rangeCIDR_10_2_16 IPv4_def v4InV6Prefix_def)

lemma preSorted_parent_child_last:
  "preSorted [''10.0.0.0/8'', ''10.1.0.0/16'', ''10.255.255.255/32'']"
  by (simp add: preSorted_def cidrRange_def blockBefore_def rangeCIDR_10_8 rangeCIDR_10_1_16
      rangeCIDR_10_255_255_255_32 IPv4_def v4InV6Prefix_def)

text \<open>
  Claim C2 (the code differs). The input \<^verbatim>\<open>10.0.0.0/8\<close>, \<^verbatim>\<open>10.0.0.0/16\<close> is in ascending
  order with the child right after its parent. The builder cuts the parent's high to
  the address before the child's low, which is below the parent's own low: the list
  has a node with low above high and two nodes with the same low. The same happens
  with two children that touch, \<^verbatim>\<open>10.1.0.0/16\<close> and \<^verbatim>\<open>10.2.0.0/16\<close>: the node that fills
  the gap between them runs from 10.2.0.0 down to 10.1.255.255. And when a later
  child starts at the parent's last address, the parent's remainder is emitted up to that
  address and overlaps the child.
\<close>

theorem LoadIPListGLite2_breaks_invariant:
  "preSorted [''10.0.0.0/8'', ''10.0.0.0/16''] \<and>
   (\<exists>list. LoadIPListGLite2 ParseFloat
       [header,
        [''10.0.0.0/8'', ''1'', ''1'', [], ''0'', ''0'', [], [], [], []],
        [''10.0.0.0/16'', ''2'', ''2'', [], ''0'', ''0'', [], [], [], []]]
       [1 \<mapsto> 0, 2 \<mapsto> 1] = Inr list \<and>
     map nodeBounds list =
       [(IPv4 10 0 0 0, IPv4 9 255 255 255, 0), (IPv4 10 0 0 0, IPv4 10 0 255 255, 1)] \<and>
     \<not> list_all lowLeHigh list \<and> \<not> sorted_wrt ascendingLow list \<and>
     \<not> rangeIndexInvariant list) \<and>
   preSorted [''10.0.0.0/8'', ''10.1.0.0/16'', ''10.2.0.0/16''] \<and>
   (\<exists>list. LoadIPListGLite2 ParseFloat
       [header,
        [''10.0.0.0/8'', ''1'', ''1'', [], ''0'', ''0'', [], [], [], []],
        [''10.1.0.0/16'', ''2'', ''2'', [], ''0'', ''0'', [], [], [], []],
        [''10.2.0.0/16'', ''2'', ''2'', [], ''0'', ''0'', [], [], [], []]]
       [1 \<mapsto> 0, 2 \<mapsto> 1] = Inr list \<and>
     map nodeBounds list =
       [(IPv4 10 0 0 0, IPv4 10 0 255 255, 0), (IPv4 10 1 0 0, IPv4 10 1 255 255, 1),
        (IPv4 10 2 0 0, IPv4 10 1 255 255, 0), (IPv4 10 2 0 0, IPv4 10 2 255 255, 1)] \<and>
     \<not> list_all lowLeHigh list \<and> \<not> sorted_wrt ascendingLow list \<and>
     \<not> rangeIndexInvariant list) \<and>
   preSorted [''10.0.0.0/8'', ''10.1.0.0/16'', ''10.255.255.255/32''] \<and>
   (\<exists>list. LoadIPListGLite2 ParseFloat
       [header,
        [''10.0.0.0/8'', ''1'', ''1'', [], ''0'', ''0'', [], [], [], []],
        [''10.1.0.0/16'', ''2'', ''2'', [], ''0'', ''0'', [], [], [], []],
        [''10.255.255.255/32'', ''2'', ''2'', [], ''0'', ''0'', [], [], [], []]]
       [1 \<mapsto> 0, 2 \<mapsto> 1] = Inr list \<and>
     map nodeBounds list =
       [(IPv4 10 0 0 0, IPv4 10 0 255 255, 0), (IPv4 10 1 0 0, IPv4 10 1 255 255, 1),
        (IPv4 10 2 0 0, IPv4 10 255 255 255, 0),
        (IPv4 10 255 255 255, IPv4 10 255 255 255, 1)] \<and>
     \<not> sorted_wrt disjointNodes list \<and> \<not> rangeIndexInvariant list)"
proof (intro conjI)
  show "preSorted [''10.0.0.0/8'', ''10.1.0.0/16'', ''10.255.255.255/32'']"
    by (rule preSorted_parent_child_last)
  show "\<exists>list. LoadIPListGLite2 ParseFloat
       [header,
        [''10.0.0.0/8'', ''1'', ''1'', [], ''0'', ''0'', [], [], [], []],
        [''10.1.0.0/16'', ''2'', ''2'', [], ''0'', ''0'', [], [], [], []],
        [''10.255.255.255/32'', ''2'', ''2'', [], ''0'', ''0'', [], [], [], []]]
       [1 \<mapsto> 0, 2 \<mapsto> 1] = Inr list \<and>
     map nodeBounds list =
       [(IPv4 10 0 0 0, IPv4 10 0 255 255, 0), (IPv4 10 1 0 0, IPv4 10 1 255 255, 1),
        (IPv4 10 2 0 0, IPv4 10 255 255 255, 0),
        (IPv4 10 255 255 255, IPv4 10 255 255 255, 1)] \<and>
     \<not> sorted_wrt disjointNodes list \<and> \<not> rangeIndexInvariant list"
    by (simp add: LoadIPListGLite2_def readBlock_10_8 readBlock_10_1_16
        readBlock_10_255_255_255_32 ip_eval invariant_eval)
  show "preSorted [''10.0.0.0/8'', ''10.0.0.0/16'']"
    by (rule preSorted_parent_child)
  show "preSorted [''10.0.0.0/8'', ''10.1.0.0/16'', ''10.2.0.0/16'']"
    by (rule preSorted_parent_children)
  show "\<exists>list. LoadIPListGLite2 ParseFloat
       [header,
        [''10.0.0.0/8'', ''1'', ''1'', [], ''0'', ''0'', [], [], [], []],
        [''10.0.0.0/16'', ''2'', ''2'', [], ''0'', ''0'', [], [], [], []]]
       [1 \<mapsto> 0, 2 \<mapsto> 1] = Inr list \<and>
     map nodeBounds list =
       [(IPv4 10 0 0 0, IPv4 9 255 255 255, 0), (IPv4 10 0 0 0, IPv4 10 0 255 255, 1)] \<and>
     \<not> list_all lowLeHigh list \<and> \<not> sorted_wrt ascendingLow list \<and>
     \<not> rangeIndexInvariant list"
    by (simp add: LoadIPListGLite2_def readBlock_10_8 readBlock_10_0_16 ip_eval
        invariant_eval)
  show "\<exists>list. LoadIPListGLite2 ParseFloat
       [header,
        [''10.0.0.0/8'', ''1'', ''1'', [], ''0'', ''0'', [], [], [], []],
        [''10.1.0.0/16'', ''2'', ''2'', [], ''0'', ''0'', [], [], [], []],
        [''10.2.0.0/16'', ''2'', ''2'', [], ''0'', ''0'', [], [], [], []]]
       [1 \<mapsto> 0, 2 \<mapsto> 1] = Inr list \<and>
     map nodeBounds list =
       [(IPv4 10 0 0 0, IPv4 10 0 255 255, 0), (IPv4 10 1 0 0, IPv4 10 1 255 255, 1),
        (IPv4 10 2 0 0, IPv4 10 1 255 255, 0), (IPv4 10 2 0 0, IPv4 10 2 255 255, 1)] \<and>
     \<not> list_all lowLeHigh list \<and> \<not> sorted_wrt ascendingLow list \<and>
     \<not> rangeIndexInvariant list"
    by (simp add: LoadIPListGLite2_def readBlock_10_8 readBlock_10_1_16 readBlock_10_2_16
        ip_eval invariant_eval)
qed

subsection \<open>Range search\<close>

lemma SearchList_loop_sound:
  "SearchList_loop list userIP idxs inRange lastNodeIndex = Inr node \<Longrightarrow>
   (inRange \<Longrightarrow> 0 \<le> bytes_Compare userIP (IPAddressLow (list ! lastNodeIndex)) \<and>
                 bytes_Compare userIP (IPAddressHigh (list ! lastNodeIndex)) \<le> 0) \<Longrightarrow>
   0 \<le> bytes_Compare userIP (IPAddressLow node) \<and>
   bytes_Compare userIP (IPAddressHigh node) \<le> 0"
proof (induction idxs arbitrary: inRange lastNodeIndex)
  case Nil
  then show ?case by (auto split: if_splits)
next
  case (Cons i rest)
  show ?case
  proof (cases "0 \<le> bytes_Compare userIP (IPAddressLow (list ! i)) \<and>
                bytes_Compare userIP (IPAddressHigh (list ! i)) \<le> 0")
    case True
    with Cons.prems(1) have "SearchList_loop list userIP rest True i = Inr node" by simp
    from Cons.IH[OF this] True show ?thesis by simp
  next
    case False
    show ?thesis
    proof (cases "inRange \<and> bytes_Compare userIP (IPAddressLow (list ! i)) < 0")
      case True
      with False Cons.prems(1) have "node = list ! lastNodeIndex" by auto
      with True Cons.prems(2) show ?thesis by simp
    next
      case skip: False
      with False Cons.prems(1)
      have "SearchList_loop list userIP rest inRange lastNodeIndex = Inr node" by auto
      from Cons.IH[OF this] Cons.prems(2) show ?thesis by simp
    qed
  qed
qed

text \<open>
  Claim C9. For every list of range nodes, sorted or not, overlapping or not, and every
  query string: a node that \<^verbatim>\<open>SearchList\<close> returns without error contains the parsed
  query address, low \<open>\<le>\<close> address \<open>\<le>\<close> high under \<^verbatim>\<open>bytes.Compare\<close>; and a query string
  that does not parse as an address gets the error "Invalid search IP".
\<close>

theorem SearchList_returns_containing_node:
  "(SearchList list ipLookUp = Inr node \<longrightarrow>
      (\<exists>ip. ParseIP ipLookUp = Some ip \<and>
            bytes_Compare (IPAddressLow node) ip \<le> 0 \<and>
            bytes_Compare ip (IPAddressHigh node) \<le> 0)) \<and>
   (ParseIP ipLookUp = None \<longrightarrow> SearchList list ipLookUp = Inl ''Invalid search IP'')"
proof (intro conjI impI)
  assume r: "SearchList list ipLookUp = Inr node"
  then obtain ip where p: "ParseIP ipLookUp = Some ip"
    by (cases "ParseIP ipLookUp") (auto simp: SearchList_def)
  with r have "SearchList_loop list ip [0..<length list] False 0 = Inr node"
    by (simp add: SearchList_def)
  from SearchList_loop_sound[OF this]
  have "0 \<le> bytes_Compare ip (IPAddressLow node) \<and> bytes_Compare ip (IPAddressHigh node) \<le> 0"
    by simp
  moreover have "bytes_Compare (IPAddressLow node) ip = - bytes_Compare ip (IPAddressLow node)"
    by (rule bytes_Compare_flip)
  ultimately show "\<exists>ip. ParseIP ipLookUp = Some ip \<and>
            bytes_Compare (IPAddressLow node) ip \<le> 0 \<and>
            bytes_Compare ip (IPAddressHigh node) \<le> 0"
    using p by simp
next
  assume "ParseIP ipLookUp = None"
  then show "SearchList list ipLookUp = Inl ''Invalid search IP''"
    by (simp add: SearchList_def)
qed

theorem SearchList_returns_containing_node_witness:
  "SearchList [\<lparr>IPAddressLow = IPv4 10 0 0 0, IPAddressHigh = IPv4 10 255 255 255,
                LocationIndex = 0, PostalCode = [], Latitude = 0::int, Longitude = 0\<rparr>]
     ''10.1.2.3'' =
     Inr \<lparr>IPAddressLow = IPv4 10 0 0 0, IPAddressHigh = IPv4 10 255 255 255,
          LocationIndex = 0, PostalCode = [], Latitude = 0::int, Longitude = 0\<rparr> \<and>
   ParseIP ''10.1.2.3'' = Some (IPv4 10 1 2 3) \<and>
   bytes_Compare (IPv4 10 0 0 0) (IPv4 10 1 2 3) \<le> 0 \<and>
   bytes_Compare (IPv4 10 1 2 3) (IPv4 10 255 255 255) \<le> 0 \<and>
   ParseIP ''10.1.2'' = None \<and>
   SearchList [\<lparr>IPAddressLow = IPv4 10 0 0 0, IPAddressHigh = IPv4 10 255 255 255,
                LocationIndex = 0, PostalCode = [], Latitude = 0::int, Longitude = 0\<rparr>]
     ''10.1.2'' = Inl ''Invalid search IP''"
proof -
  let ?n = "\<lparr>IPAddressLow = IPv4 10 0 0 0, IPAddressHigh = IPv4 10 255 255 255,
             LocationIndex = 0, PostalCode = [], Latitude = 0::int, Longitude = 0\<rparr>"
  have cmp: "0 \<le> bytes_Compare (IPv4 10 1 2 3) (IPv4 10 0 0 0)"
    "bytes_Compare (IPv4 10 1 2 3) (IPv4 10 255 255 255) \<le> 0"
    by (simp_all add: IPv4_def v4InV6Prefix_def)
  have s: "SearchList [?n] ''10.1.2.3'' = Inr ?n"
    using cmp by (simp add: SearchList_def ParseIP_10_1_2_3)
  from SearchList_returns_containing_node[of "[?n]" "''10.1.2.3''" ?n]
    SearchList_returns_containing_node[of "[?n]" "''10.1.2''" ?n]
    s ParseIP_10_1_2 ParseIP_10_1_2_3
  show ?thesis by simp
qed

subsection \<open>Request handling\<close>

lemma SearchList_Nil: "SearchList [] ''10.1.2.3'' = Inl (''Node not found'' @ [CHR 0x0A])"
  by (simp add: SearchList_def ParseIP_10_1_2_3)

lemma GetMetadataForSingleIP_unset:
  "GetMetadataForSingleIP None request = Returns None"
  by (simp add: GetMetadataForSingleIP_def)

text \<open>
  Claim C5 (the code differs). The lookup of 10.1.2.3 returns nil before any dataset is
  published, and returns the same nil with a published dataset in which no range holds
  the address (\<^verbatim>\<open>SearchList\<close> ends in "Node not found"): no "not ready" condition of its
  own reaches the caller. The doc comment of \<^verbatim>\<open>GetMetadataForSingleIP\<close> promises a
  non-nil pointer, and the guard on the unset dataset carries a note that it is still to
  block until a dataset is there.
\<close>

theorem GetMetadataForSingleIP_not_ready_same_as_not_found:
  "GetMetadataForSingleIP None \<lparr>IP = ''10.1.2.3'', IPFormat = 4, Timestamp = 0\<rparr>
     = (Returns None :: int MetaData option outcome) \<and>
   SearchList ([] :: int IPNode list) ''10.1.2.3'' = Inl (''Node not found'' @ [CHR 0x0A]) \<and>
   GetMetadataForSingleIP (Some \<lparr>IP4Nodes = [], IP6Nodes = [], LocationNodes = []\<rparr>)
     \<lparr>IP = ''10.1.2.3'', IPFormat = 4, Timestamp = 0\<rparr>
     = (Returns None :: int MetaData option outcome)"
  by (simp add: GetMetadataForSingleIP_def SearchList_Nil)

text \<open>
  Claim C10. \<^verbatim>\<open>ConvertIPNodeToMetaData\<close> indexes the location table at
  \<^verbatim>\<open>ipNode.LocationIndex\<close> whenever that index is not negative, with no test against the
  length of the table: the call panics exactly when \<open>0 \<le> LocationIndex\<close> and the table
  has at most \<open>LocationIndex\<close> entries. So it is safe exactly when \<open>LocationIndex\<close> is
  below the length of the table, and a node with index 0 and an empty table is an
  input on which the access is out of bounds.
\<close>

theorem ConvertIPNodeToMetaData_panics_iff:
  "(ConvertIPNodeToMetaData ipNode locationNodes = Panics) =
     (0 \<le> LocationIndex ipNode \<and> int (length locationNodes) \<le> LocationIndex ipNode) \<and>
   (ConvertIPNodeToMetaData ipNode locationNodes \<noteq> Panics) =
     (LocationIndex ipNode < int (length locationNodes)) \<and>
   0 \<le> LocationIndex (ipNode\<lparr>LocationIndex := 0\<rparr>) \<and>
   ConvertIPNodeToMetaData (ipNode\<lparr>LocationIndex := 0\<rparr>) [] = Panics"
  by (auto simp: ConvertIPNodeToMetaData_def)

text \<open>
  The panic is reachable from a lookup: a dataset whose only block has location index 0
  (the index given to a block whose geoname ids are unknown) and whose location table
  is empty.
\<close>

lemma ParseIP_1_0_0_7: "ParseIP ''1.0.0.7'' = Some (IPv4 1 0 0 7)"
  by (simp add: net_eval)

lemma GetMetadataForSingleIP_panics:
  "GetMetadataForSingleIP
     (Some \<lparr>IP4Nodes = [\<lparr>IPAddressLow = IPv4 1 0 0 0, IPAddressHigh = IPv4 1 0 0 255,
                           LocationIndex = 0, PostalCode = [],
                           Latitude = 0 :: int, Longitude = 0\<rparr>],
            IP6Nodes = [], LocationNodes = []\<rparr>)
     \<lparr>IP = ''1.0.0.7'', IPFormat = 4, Timestamp = 0\<rparr> = Panics"
  by (simp add: GetMetadataForSingleIP_def SearchList_def ParseIP_1_0_0_7 IPv4_def
      v4InV6Prefix_def ConvertIPNodeToMetaData_def)

end
